theory Spec2Isabelle
  imports Main "HOL-Library.Word"
begin

unbundle bit_operations_syntax

section \<open>Machine types and the constants of the ELF headers\<close>

text \<open>
  The loader is compiled for two targets, selected by the preprocessor: x86-64 with
  8-byte pointers and i386 with 4-byte pointers. The pointer width is the type
  parameter \<open>'a\<close> of the model: \<open>'a word\<close> is \<open>char*\<close>, \<open>uintptr_t\<close>, \<open>size_t\<close>
  and the \<open>Elf_Addr\<close>, \<open>Elf_Off\<close> and \<open>Elf_Xword\<close> fields; the test
  \<open>LENGTH('a) = 64\<close> stands for \<open>__SIZEOF_POINTER__ == 8\<close> and for
  \<open>defined(__x86_64__)\<close>. \<open>int\<close> is 32 bits on both targets.
\<close>

type_synonym byte = "8 word"

text \<open>The numeric values below are those of the system header \<open>elf.h\<close>.\<close>

definition SHT_SYMTAB :: "32 word" where "SHT_SYMTAB = 2"
definition SHT_STRTAB :: "32 word" where "SHT_STRTAB = 3"
definition SHT_RELA :: "32 word" where "SHT_RELA = 4"
definition SHT_NOBITS :: "32 word" where "SHT_NOBITS = 8"
definition SHT_REL :: "32 word" where "SHT_REL = 9"
definition SHF_ALLOC :: "'a::len word" where "SHF_ALLOC = 2"
definition SHN_UNDEF :: "16 word" where "SHN_UNDEF = 0"
definition STT_NOTYPE :: "8 word" where "STT_NOTYPE = 0"
definition STT_OBJECT :: "8 word" where "STT_OBJECT = 1"
definition STT_FUNC :: "8 word" where "STT_FUNC = 2"
definition STT_SECTION :: "8 word" where "STT_SECTION = 3"

definition R_X86_64_64 :: "'a::len word" where "R_X86_64_64 = 1"
definition R_X86_64_PC32 :: "'a::len word" where "R_X86_64_PC32 = 2"
definition R_X86_64_PLT32 :: "'a::len word" where "R_X86_64_PLT32 = 4"
definition R_X86_64_REX_GOTPCRELX :: "'a::len word" where "R_X86_64_REX_GOTPCRELX = 42"
definition R_386_32 :: "'a::len word" where "R_386_32 = 1"
definition R_386_PC32 :: "'a::len word" where "R_386_PC32 = 2"

definition ELFMAG :: "byte list" where "ELFMAG = [0x7f, 0x45, 0x4c, 0x46]"
definition EI_CLASS :: nat where "EI_CLASS = 4"
definition ELFCLASS32 :: byte where "ELFCLASS32 = 1"
definition ELFCLASS64 :: byte where "ELFCLASS64 = 2"

definition MAP_FAILED :: "'a::len word" where "MAP_FAILED = - 1"

definition ELF_ST_TYPE :: "byte \<Rightarrow> byte" where
  "ELF_ST_TYPE v = v AND 0xf"

definition ELF_R_SYM :: "'a::len word \<Rightarrow> 'a word" where
  "ELF_R_SYM v = (if LENGTH('a) = 64 then drop_bit 32 v else drop_bit 8 v)"

definition ELF_R_TYPE :: "'a::len word \<Rightarrow> 'a word" where
  "ELF_R_TYPE v = (if LENGTH('a) = 64 then v AND 0xffffffff else v AND 0xff)"

definition sizeof_Elf_Sym :: "'a::len word" where
  "sizeof_Elf_Sym = (if LENGTH('a) = 64 then 24 else 16)"

definition sizeof_Elf_Rela :: "'a::len word" where
  "sizeof_Elf_Rela = (if LENGTH('a) = 64 then 24 else 12)"

definition sizeof_Elf_Rel :: "'a::len word" where
  "sizeof_Elf_Rel = (if LENGTH('a) = 64 then 16 else 8)"

section \<open>The object file as the loader reads it\<close>

text \<open>
  The loader never copies the file: it casts pointers into the buffer \<open>bin\<close> to the
  structs of \<open>elf.h\<close>. The model keeps the structs as records with the fields the
  loader reads, and the buffer as the views the casts give: the section header table
  (the \<open>e_shnum\<close> headers at \<open>bin + e_shoff\<close>, so \<open>e_shnum\<close> is the length of
  \<open>shdrs\<close>), and for a file offset the byte, the \<open>Elf_Sym\<close>, the \<open>Elf_Rela\<close> and
  the NUL-terminated string found there. The views are independent of each other: the
  model does not follow a file whose symbol table overlaps another region.
\<close>

record (overloaded) ('a::len) Elf_Shdr =
  sh_type :: "32 word"
  sh_flags :: "'a word"
  sh_offset :: "'a word"
  sh_size :: "'a word"
  sh_link :: "32 word"
  sh_info :: "32 word"

record (overloaded) ('a::len) Elf_Sym =
  st_name :: "32 word"
  st_info :: byte
  st_shndx :: "16 word"
  st_value :: "'a word"

record (overloaded) ('a::len) Elf_Rela =
  r_offset :: "'a word"
  r_info :: "'a word"
  r_addend :: "'a word"

record (overloaded) ('a::len) elf_file =
  e_ident :: "byte list"
  shdrs :: "'a Elf_Shdr list"
  byte_at :: "'a word \<Rightarrow> byte"
  sym_at :: "'a word \<Rightarrow> 'a Elf_Sym"
  rela_at :: "'a word \<Rightarrow> 'a Elf_Rela"
  str_at :: "'a word \<Rightarrow> string"

section \<open>The process state\<close>

text \<open>
  The source is compiled with \<open>OBJFCN_SPLIT_ALLOC\<close> set to 0: one arena for all
  objects, held in the statics \<open>code\<close> and \<open>code_used\<close>. \<open>obj_error\<close> is the
  C string that the last \<open>sprintf\<close> wrote from \<open>obj_error[0]\<close> on; the array has
  \<open>obj_error_size\<close> bytes and \<open>sprintf\<close> does not know it. \<open>mem\<close> is the memory of
  the process, byte by byte.
\<close>

record (overloaded) ('a::len) state =
  obj_error :: string
  code :: "'a word"
  code_used :: "'a word"
  mem :: "'a word \<Rightarrow> byte"

definition obj_error_size :: nat where
  "obj_error_size = 256"

definition arena_size :: "'a::len word" where
  "arena_size = 1024 * 1024 * 1024"

text \<open>
  What the loader asks of the process around it: the dynamic linker's \<open>dlsym\<close> (0 is
  \<open>NULL\<close>, the symbol is absent), the C library's file functions as the step at which
  they stop, the address \<open>mmap\<close> gives for the arena, and whether \<open>malloc\<close> of the
  handle succeeds.
\<close>

datatype 'f file_result =
    Fopen_failed string
  | Fseek_failed string
  | Ftell_failed string
  | Fread_failed string
  | Contents 'f

record (overloaded) ('a::len) host =
  dlsym :: "string \<Rightarrow> 'a word"
  file_system :: "string \<Rightarrow> 'a elf_file file_result"
  mmap_result :: "'a word"
  malloc_ok :: bool

text \<open>
  An error return of the C code leaves a state behind (with the message in
  \<open>obj_error\<close>): \<open>Fail\<close>. An access the C standard leaves undefined, which the model
  cannot follow (an index beyond the array \<open>addrs\<close>, a dereference of a null
  \<open>symtab\<close> or \<open>strtab\<close>), is \<open>UB\<close>.
\<close>

datatype 's error = UB | Fail 's

section \<open>Memory\<close>

definition write_bytes :: "('a::len word \<Rightarrow> byte) \<Rightarrow> 'a word \<Rightarrow> byte list \<Rightarrow> 'a word \<Rightarrow> byte" where
  "write_bytes m a bs = (\<lambda>x. if unat (x - a) < length bs then bs ! unat (x - a) else m x)"

definition read_bytes :: "('a::len word \<Rightarrow> byte) \<Rightarrow> 'a word \<Rightarrow> nat \<Rightarrow> byte list" where
  "read_bytes m a n = map (\<lambda>k. m (a + of_nat k)) [0..<n]"

text \<open>Both targets are little-endian.\<close>

definition le_bytes :: "nat \<Rightarrow> 'b::len word \<Rightarrow> byte list" where
  "le_bytes n v = map (\<lambda>k. ucast (drop_bit (8 * k) v)) [0..<n]"

fun of_le :: "byte list \<Rightarrow> 'b::len word" where
  "of_le [] = 0"
| "of_le (b # bs) = ucast b OR push_bit 8 (of_le bs)"

definition read_u32 :: "('a::len word \<Rightarrow> byte) \<Rightarrow> 'a word \<Rightarrow> 32 word" where
  "read_u32 m a = of_le (read_bytes m a 4)"

definition write_u32 :: "('a::len word \<Rightarrow> byte) \<Rightarrow> 'a word \<Rightarrow> 32 word \<Rightarrow> 'a word \<Rightarrow> byte" where
  "write_u32 m a v = write_bytes m a (le_bytes 4 v)"

definition read_u64 :: "('a::len word \<Rightarrow> byte) \<Rightarrow> 'a word \<Rightarrow> 64 word" where
  "read_u64 m a = of_le (read_bytes m a 8)"

definition write_u64 :: "('a::len word \<Rightarrow> byte) \<Rightarrow> 'a word \<Rightarrow> 64 word \<Rightarrow> 'a word \<Rightarrow> byte" where
  "write_u64 m a v = write_bytes m a (le_bytes 8 v)"

text \<open>\<open>memcpy(dst, bin + off, n)\<close>, from the file buffer into memory.\<close>

definition memcpy_from :: "'a::len elf_file \<Rightarrow> ('a word \<Rightarrow> byte) \<Rightarrow> 'a word \<Rightarrow> 'a word \<Rightarrow> 'a word
    \<Rightarrow> 'a word \<Rightarrow> byte" where
  "memcpy_from bin m dst off n = (\<lambda>x. if x - dst < n then byte_at bin (off + (x - dst)) else m x)"

section \<open>The arena\<close>

definition align_down :: "'a::len word \<Rightarrow> 'a word \<Rightarrow> 'a word" where
  "align_down v align = v AND NOT (align - 1)"

definition align_up :: "'a::len word \<Rightarrow> 'a word \<Rightarrow> 'a word" where
  "align_up v align = align_down (v + align - 1) align"

definition alloc_code :: "'a::len state \<Rightarrow> 'a word \<Rightarrow> 'a word \<times> 'a state" where
  "alloc_code s sz = (code s + code_used s, s\<lparr>code_used := code_used s + sz\<rparr>)"

definition align_code :: "'a::len state \<Rightarrow> 'a word \<Rightarrow> 'a state" where
  "align_code s align = s\<lparr>code_used := align_up (code_used s) align\<rparr>"

text \<open>
  \<open>init\<close> maps the arena. A fresh anonymous mapping reads as zero; when \<open>mmap\<close>
  fails \<open>code\<close> is \<open>MAP_FAILED\<close> and the message is set.
\<close>

definition init :: "'a::len host \<Rightarrow> 'a state \<Rightarrow> 'a state" where
  "init h s =
     (let c = mmap_result h in
      if c = MAP_FAILED then s\<lparr>code := c, obj_error := ''mmap failed''\<rparr>
      else s\<lparr>code := c, mem := (\<lambda>x. if x - c < arena_size then 0 else mem s x)\<rparr>)"

section \<open>Formatting\<close>

definition digit :: "nat \<Rightarrow> char" where
  "digit d = char_of (48 + d)"

function decimal :: "nat \<Rightarrow> string" where
  "decimal n = (if n < 10 then [digit n] else decimal (n div 10) @ [digit (n mod 10)])"
  by pat_completeness auto
termination
  by (relation "measure id") auto

declare decimal.simps [simp del]

section \<open>Handles\<close>

record (overloaded) ('a::len) symbol =
  name :: string
  addr :: "'a word"

text \<open>
  \<open>obj_handle\<close>: the array \<open>symbols\<close> with its count \<open>num_symbols\<close> is a list; the
  three \<open>code\<close> fields are those of the struct, which this build never sets after
  clearing them.
\<close>

record (overloaded) ('a::len) obj_handle =
  symbols :: "'a symbol list"
  obj_code :: "'a word"
  obj_code_size :: "'a word"
  obj_code_used :: "'a word"

definition new_obj :: "'a::len obj_handle" where
  "new_obj = \<lparr>symbols = [], obj_code = 0, obj_code_size = 0, obj_code_used = 0\<rparr>"

fun objsym_loop :: "'a::len symbol list \<Rightarrow> string \<Rightarrow> 'a word" where
  "objsym_loop [] symbol = 0"
| "objsym_loop (s # ss) symbol = (if name s = symbol then addr s else objsym_loop ss symbol)"

definition objsym :: "'a::len obj_handle \<Rightarrow> string \<Rightarrow> 'a word" where
  "objsym obj symbol = objsym_loop (symbols obj) symbol"

text \<open>
  \<open>objclose\<close> returns 0 and releases resources; the model lists what it releases, in
  order: the mapping (only when \<open>obj->code\<close> is not null), the name of each symbol
  by its index, and the handle.
\<close>

datatype 'w release = Munmap 'w 'w | Free_name nat | Free_obj

definition objclose :: "'a::len obj_handle \<Rightarrow> int \<times> 'a word release list" where
  "objclose obj =
     (0, (if obj_code obj \<noteq> 0 then [Munmap (obj_code obj) (obj_code_size obj)] else [])
         @ map Free_name [0..<length (symbols obj)] @ [Free_obj])"

section \<open>Loops\<close>

text \<open>
  A \<open>for\<close> loop whose body may leave the function: the body is run on each index in
  turn, and the first \<open>Inl\<close> ends the loop.
\<close>

fun for_each :: "('x \<Rightarrow> 's \<Rightarrow> 'e + 's) \<Rightarrow> 'x list \<Rightarrow> 's \<Rightarrow> 'e + 's" where
  "for_each body [] s = Inr s"
| "for_each body (x # xs) s =
     (case body x s of Inl e \<Rightarrow> Inl e | Inr s' \<Rightarrow> for_each body xs s')"

text \<open>\<open>addrs[i]\<close>: the array has the length it was declared with.\<close>

definition index_addrs :: "'a::len word list \<Rightarrow> nat \<Rightarrow> 's error + 'a word" where
  "index_addrs addrs i = (if i < length addrs then Inr (addrs ! i) else Inl UB)"

section \<open>The relocation engine\<close>

definition R_32 :: "'a::len word" where "R_32 = R_386_32"
definition R_64 :: "'a::len word" where "R_64 = R_X86_64_64"
definition R_PC32 :: "'a::len word" where
  "R_PC32 = (if LENGTH('a) = 64 then R_X86_64_PC32 else R_386_PC32)"
definition R_PLT32 :: "'a::len word" where "R_PLT32 = R_X86_64_PLT32"

text \<open>
  The first \<open>switch\<close> of the loop body, on the type of the symbol: the address
  \<open>sym_addr\<close>, or an error return. \<open>symtab\<close> and \<open>strtab\<close> are the file offsets the
  two pointers were set to, \<open>None\<close> when they are still null; \<open>reloc_symbol\<close> is
  \<open>&symtab[ELF_R_SYM(rel->r_info)]\<close>.
\<close>

definition reloc_symbol :: "'a::len elf_file \<Rightarrow> 'a word \<Rightarrow> 'a Elf_Rela \<Rightarrow> 'a Elf_Sym" where
  "reloc_symbol bin st rel = sym_at bin (st + sizeof_Elf_Sym * ELF_R_SYM (r_info rel))"

definition reloc_sym_addr :: "'a::len host \<Rightarrow> 'a elf_file \<Rightarrow> 'a word option \<Rightarrow> 'a word option
    \<Rightarrow> 'a word list \<Rightarrow> 'a Elf_Rela \<Rightarrow> 'a state \<Rightarrow> 'a state error + 'a word" where
  "reloc_sym_addr h bin symtab strtab addrs rel s =
     (case symtab of
        None \<Rightarrow> Inl UB
      | Some st \<Rightarrow>
          let sym = reloc_symbol bin st rel;
              t = ELF_ST_TYPE (st_info sym)
          in if t = STT_SECTION then index_addrs addrs (unat (st_shndx sym))
             else if t = STT_FUNC \<or> t = STT_OBJECT then Inr (st_value sym)
             else if t = STT_NOTYPE then
               (if st_shndx sym = SHN_UNDEF then
                  (case strtab of
                     None \<Rightarrow> Inl UB
                   | Some str \<Rightarrow>
                       let nm = str_at bin (str + ucast (st_name sym));
                           sym_addr = dlsym h nm
                       in if sym_addr = 0
                          then Inl (Fail (s\<lparr>obj_error := ''failed to resolve '' @ nm\<rparr>))
                          else Inr sym_addr)
                else index_addrs addrs (unat (st_shndx sym)))
             else Inl (Fail (s\<lparr>obj_error :=
                                 ''unsupported relocation sym '' @ decimal (unat t)\<rparr>)))"

text \<open>
  The second \<open>switch\<close>, on the type of the relocation. \<open>addend\<close> is an \<open>int\<close>;
  it is sign-extended where it is added to a pointer-sized value, and the sum is cut to
  the width of the word it is added to. \<open>write_trampoline\<close> is the four stores that
  follow \<open>alloc_code(obj, 6 + 8)\<close>.
\<close>

definition write_trampoline :: "('a::len word \<Rightarrow> byte) \<Rightarrow> 'a word \<Rightarrow> 'a word \<Rightarrow> 'a word \<Rightarrow> byte" where
  "write_trampoline m t dest =
     (let m1 = m(t := 0xff);
          m2 = m1(t + 1 := 0x25);
          m3 = write_u32 m2 (t + 2) 0
      in write_u64 m3 (t + 6) (ucast dest))"

definition reloc_apply :: "bool \<Rightarrow> 'a::len word \<Rightarrow> 'a word \<Rightarrow> 'a word \<Rightarrow> 32 word
    \<Rightarrow> 'a word \<times> 'a state \<Rightarrow> 'a state error + 'a word \<times> 'a state" where
  "reloc_apply code_size_only ty target sym_addr addend = (\<lambda>(code_size, s).
     if LENGTH('a) \<noteq> 64 \<and> ty = R_32 then
       Inr (code_size,
            if code_size_only then s
            else s\<lparr>mem := write_u32 (mem s) target
                             (read_u32 (mem s) target + (ucast sym_addr + addend))\<rparr>)
     else if LENGTH('a) = 64 \<and> ty = R_64 then
       Inr (code_size,
            if code_size_only then s
            else s\<lparr>mem := write_u64 (mem s) target
                             (read_u64 (mem s) target + (ucast sym_addr + scast addend))\<rparr>)
     else if ty = R_PC32 then
       Inr (code_size,
            if code_size_only then s
            else s\<lparr>mem := write_u32 (mem s) target
                             (read_u32 (mem s) target
                              + ucast ((sym_addr - target) + scast addend))\<rparr>)
     else if LENGTH('a) = 64 \<and> ty = R_PLT32 then
       (if code_size_only then Inr (code_size + (6 + 8), s)
        else
          let (t, s1) = alloc_code s (6 + 8);
              m1 = write_trampoline (mem s1) t sym_addr
          in Inr (code_size,
                  s1\<lparr>mem := write_u32 m1 target
                                 (read_u32 m1 target + ucast ((t - target) + scast addend))\<rparr>))
     else if LENGTH('a) = 64 \<and> ty = R_X86_64_REX_GOTPCRELX then
       (if code_size_only then Inr (code_size + 8, s)
        else
          let (t, s1) = alloc_code s 8;
              m1 = write_u64 (mem s1) t (ucast sym_addr)
          in Inr (code_size,
                  s1\<lparr>mem := write_u32 m1 target
                                 (read_u32 m1 target + ucast ((t - target) + scast addend))\<rparr>))
     else Inl (Fail (s\<lparr>obj_error := ''Unknown reloc: '' @ decimal (unat ty)\<rparr>)))"

text \<open>
  The body of the inner loop, for relocation \<open>j\<close> of the relocation section \<open>shdr\<close>
  whose target section was placed at \<open>target_base\<close>: \<open>relsize_of\<close> is
  \<open>relsize\<close>, \<open>reloc_record\<close> is \<open>rel\<close> and \<open>reloc_addend\<close> is \<open>addend\<close>. The
  symbol is looked at only when \<open>code_size_only\<close> is off; \<open>sym_addr\<close> stays null
  otherwise.
\<close>

definition relsize_of :: "'a::len Elf_Shdr \<Rightarrow> 'a word" where
  "relsize_of shdr = (if sh_type shdr = SHT_RELA then sizeof_Elf_Rela else sizeof_Elf_Rel)"

definition reloc_record :: "'a::len elf_file \<Rightarrow> 'a Elf_Shdr \<Rightarrow> nat \<Rightarrow> 'a Elf_Rela" where
  "reloc_record bin shdr j = rela_at bin (sh_offset shdr + relsize_of shdr * of_nat j)"

definition reloc_addend :: "'a::len Elf_Shdr \<Rightarrow> 'a Elf_Rela \<Rightarrow> 32 word" where
  "reloc_addend shdr rel = (if sh_type shdr = SHT_RELA then ucast (r_addend rel) else 0)"

definition relocate_one :: "'a::len host \<Rightarrow> 'a elf_file \<Rightarrow> 'a word option \<Rightarrow> 'a word option
    \<Rightarrow> 'a word list \<Rightarrow> bool \<Rightarrow> 'a Elf_Shdr \<Rightarrow> 'a word \<Rightarrow> nat
    \<Rightarrow> 'a word \<times> 'a state \<Rightarrow> 'a state error + 'a word \<times> 'a state" where
  "relocate_one h bin symtab strtab addrs code_size_only shdr target_base j = (\<lambda>(code_size, s).
     let rel = reloc_record bin shdr j;
         target = target_base + r_offset rel;
         addend = reloc_addend shdr rel
     in case (if code_size_only then Inr 0
              else reloc_sym_addr h bin symtab strtab addrs rel s) of
          Inl e \<Rightarrow> Inl e
        | Inr sym_addr \<Rightarrow>
            reloc_apply code_size_only (ELF_R_TYPE (r_info rel)) target sym_addr addend
              (code_size, s))"

text \<open>
  \<open>relnum\<close> is an \<open>int\<close>: the quotient is cut to 32 bits and read as signed, and
  the loop does not run when it is not positive.
\<close>

definition relnum_of :: "'a::len Elf_Shdr \<Rightarrow> int" where
  "relnum_of shdr = sint (ucast (sh_size shdr div relsize_of shdr) :: 32 word)"

text \<open>
  The body of the outer loop, for section \<open>i\<close>. As in the source, \<open>target_base\<close>
  is read from \<open>addrs[shdr->sh_info]\<close> for every section, before the section type is
  tested: a section of any type whose \<open>sh_info\<close> is not an index of \<open>addrs\<close> makes
  the source read beyond the array. For a relocation section \<open>sh_info\<close> also indexes
  the section headers.
\<close>

definition relocate_section :: "'a::len host \<Rightarrow> 'a elf_file \<Rightarrow> 'a word option \<Rightarrow> 'a word option
    \<Rightarrow> 'a word list \<Rightarrow> bool \<Rightarrow> nat
    \<Rightarrow> 'a word \<times> 'a state \<Rightarrow> 'a state error + 'a word \<times> 'a state" where
  "relocate_section h bin symtab strtab addrs code_size_only i = (\<lambda>(code_size, s).
     let shdr = shdrs bin ! i in
     case index_addrs addrs (unat (sh_info shdr)) of
       Inl e \<Rightarrow> Inl e
     | Inr target_base \<Rightarrow>
         if sh_type shdr \<noteq> SHT_REL \<and> sh_type shdr \<noteq> SHT_RELA then Inr (code_size, s)
         else if \<not> unat (sh_info shdr) < length (shdrs bin) then Inl UB
         else if sh_flags (shdrs bin ! unat (sh_info shdr)) AND SHF_ALLOC = 0
         then Inr (code_size, s)
         else
           for_each (relocate_one h bin symtab strtab addrs code_size_only shdr target_base)
             [0..<nat (relnum_of shdr)] (code_size, s))"

text \<open>
  \<open>relocate\<close>. \<open>Inr (code_size, s)\<close> is the return of \<open>code_size\<close>;
  \<open>Inl (Fail s)\<close> is the return of \<open>(size_t)-1\<close>.
\<close>

definition relocate :: "'a::len host \<Rightarrow> 'a elf_file \<Rightarrow> 'a word option \<Rightarrow> 'a word option
    \<Rightarrow> 'a word list \<Rightarrow> bool \<Rightarrow> 'a state \<Rightarrow> 'a state error + 'a word \<times> 'a state" where
  "relocate h bin symtab strtab addrs code_size_only s =
     for_each (relocate_section h bin symtab strtab addrs code_size_only)
       [0..<length (shdrs bin)] (0, s)"

section \<open>Loading an object\<close>

text \<open>The first loop of \<open>load_object\<close>: the symbol table and its string table.\<close>

record (overloaded) ('a::len) tables =
  symtab :: "'a word option"
  symnum :: int
  strtab_index :: int
  strtab :: "'a word option"

definition find_tables_step :: "'a::len elf_file \<Rightarrow> nat \<Rightarrow> 'a tables \<Rightarrow> 'a tables" where
  "find_tables_step bin i t =
     (let shdr = shdrs bin ! i;
          t1 = (if sh_type shdr = SHT_SYMTAB
                then t\<lparr>symtab := Some (sh_offset shdr),
                       symnum := sint (ucast (sh_size shdr div sizeof_Elf_Sym) :: 32 word),
                       strtab_index := sint (sh_link shdr)\<rparr>
                else t)
      in if sh_type shdr = SHT_STRTAB \<and> int i = strtab_index t1
         then t1\<lparr>strtab := Some (sh_offset shdr)\<rparr> else t1)"

definition find_tables :: "'a::len elf_file \<Rightarrow> 'a tables" where
  "find_tables bin =
     fold (find_tables_step bin) [0..<length (shdrs bin)]
       \<lparr>symtab = None, symnum = 0, strtab_index = - 1, strtab = None\<rparr>"

text \<open>The placement loop: \<open>alloc_code\<close>, then \<open>align_code\<close>, then the copy.\<close>

definition place_section :: "'a::len elf_file \<Rightarrow> nat \<Rightarrow> 'a word list \<times> 'a state
    \<Rightarrow> 'a word list \<times> 'a state" where
  "place_section bin i = (\<lambda>(addrs, s).
     let shdr = shdrs bin ! i in
     if sh_flags shdr AND SHF_ALLOC \<noteq> 0 then
       let (a, s1) = alloc_code s (sh_size shdr);
           s2 = align_code s1 16;
           s3 = (if sh_type shdr \<noteq> SHT_NOBITS
                 then s2\<lparr>mem := memcpy_from bin (mem s2) a (sh_offset shdr) (sh_size shdr)\<rparr>
                 else s2)
       in (addrs[i := a], s3)
     else (addrs, s))"

definition place_sections :: "'a::len elf_file \<Rightarrow> 'a state \<Rightarrow> 'a word list \<times> 'a state" where
  "place_sections bin s =
     fold (place_section bin) [0..<length (shdrs bin)] (replicate (length (shdrs bin)) 0, s)"

text \<open>
  The symbol loop: a record for each function and object symbol, and the address
  written back into the symbol table of the buffer. (The loop before it counts the
  same symbols for \<open>malloc\<close>; the count is the length of the list.)
\<close>

definition emit_symbol :: "'a::len word \<Rightarrow> 'a word option \<Rightarrow> 'a word list \<Rightarrow> nat
    \<Rightarrow> 'a elf_file \<times> 'a symbol list \<Rightarrow> 'a state error + 'a elf_file \<times> 'a symbol list" where
  "emit_symbol st str_opt addrs i = (\<lambda>(bin, syms).
     let off = st + sizeof_Elf_Sym * of_nat i;
         sym = sym_at bin off
     in if ELF_ST_TYPE (st_info sym) = STT_OBJECT \<or> ELF_ST_TYPE (st_info sym) = STT_FUNC then
          (case str_opt of
             None \<Rightarrow> Inl UB
           | Some str \<Rightarrow>
               (case index_addrs addrs (unat (st_shndx sym)) of
                  Inl e \<Rightarrow> Inl e
                | Inr base \<Rightarrow>
                    let nm = str_at bin (str + ucast (st_name sym));
                        a = base + st_value sym
                    in Inr (bin\<lparr>sym_at := (sym_at bin)(off := sym\<lparr>st_value := a\<rparr>)\<rparr>,
                            syms @ [\<lparr>name = nm, addr = a\<rparr>])))
        else Inr (bin, syms))"

definition emit_symbols :: "'a::len tables \<Rightarrow> 'a word list \<Rightarrow> 'a elf_file
    \<Rightarrow> 'a state error + 'a elf_file \<times> 'a symbol list" where
  "emit_symbols t addrs bin =
     (case symtab t of
        None \<Rightarrow> (if 0 < symnum t then Inl UB else Inr (bin, []))
      | Some st \<Rightarrow> for_each (emit_symbol st (strtab t) addrs) [0..<nat (symnum t)] (bin, []))"

text \<open>
  \<open>load_object\<close> returns 1 or 0 and leaves the handle and the state as they are at
  that point.
\<close>

definition load_object :: "'a::len host \<Rightarrow> 'a obj_handle \<Rightarrow> 'a elf_file \<Rightarrow> string \<Rightarrow> 'a state
    \<Rightarrow> 'a state error + int \<times> 'a obj_handle \<times> 'a state" where
  "load_object h obj bin filename s =
     (let t = find_tables bin;
          (addrs, s1) = place_sections bin s
      in case emit_symbols t addrs bin of
           Inl e \<Rightarrow> Inl e
         | Inr (bin1, syms) \<Rightarrow>
             (let obj1 = obj\<lparr>symbols := syms\<rparr>
              in case relocate h bin1 (symtab t) (strtab t) addrs False s1 of
                   Inl UB \<Rightarrow> Inl UB
                 | Inl (Fail s2) \<Rightarrow> Inr (0, obj1, s2)
                 | Inr (code_size, s2) \<Rightarrow> Inr (1, obj1, s2)))"

section \<open>The interface\<close>

definition read_file :: "'a::len host \<Rightarrow> string \<Rightarrow> 'a state \<Rightarrow> 'a elf_file option \<times> 'a state" where
  "read_file h filename s =
     (case file_system h filename of
        Fopen_failed e \<Rightarrow> (None, s\<lparr>obj_error := ''failed to open '' @ filename @ '': '' @ e\<rparr>)
      | Fseek_failed e \<Rightarrow> (None, s\<lparr>obj_error := ''fseek failed: '' @ e\<rparr>)
      | Ftell_failed e \<Rightarrow> (None, s\<lparr>obj_error := ''ftell failed: '' @ e\<rparr>)
      | Fread_failed e \<Rightarrow> (None, s\<lparr>obj_error := ''fread failed: '' @ e\<rparr>)
      | Contents bin \<Rightarrow> (Some bin, s))"

text \<open>
  \<open>objopen\<close>: \<open>None\<close> is the null handle. On the failure of \<open>load_object\<close> the
  source calls \<open>objclose\<close> on the handle, which changes nothing in the state.
\<close>

definition objopen :: "'a::len host \<Rightarrow> string \<Rightarrow> int \<Rightarrow> 'a state
    \<Rightarrow> 'a state error + 'a obj_handle option \<times> 'a state" where
  "objopen h filename flags s =
     (let s1 = (if code s = 0 then init h s else s) in
      if code s1 = MAP_FAILED then Inr (None, s1)
      else
        (case read_file h filename s1 of
           (None, s2) \<Rightarrow> Inr (None, s2)
         | (Some bin, s2) \<Rightarrow>
             if \<not> malloc_ok h then Inr (None, s2\<lparr>obj_error := ''malloc failed''\<rparr>)
             else if take 4 (e_ident bin) \<noteq> ELFMAG
             then Inr (None, s2\<lparr>obj_error := filename @ '' is not ELF''\<rparr>)
             else
               (case load_object h new_obj bin filename s2 of
                  Inl e \<Rightarrow> Inl e
                | Inr (r, obj, s3) \<Rightarrow>
                    if r \<noteq> 0 then Inr (Some obj, s3) else Inr (None, s3))))"

definition objerror :: "'a::len state \<Rightarrow> string" where
  "objerror s = obj_error s"

section \<open>What the caller observes, and example objects\<close>

definition handle_of :: "'s error + 'h option \<times> ('a::len) state \<Rightarrow> 'h option" where
  "handle_of r = (case r of Inr (Some obj, s) \<Rightarrow> Some obj | _ \<Rightarrow> None)"

definition outcome :: "'s error + 'h option \<times> ('a::len) state \<Rightarrow> ('h option \<times> string) option" where
  "outcome r = (case r of Inl e \<Rightarrow> None | Inr (obj, s) \<Rightarrow> Some (obj, obj_error s))"

definition start :: "64 state" where
  "start = \<lparr>obj_error = [], code = 0, code_used = 0, mem = (\<lambda>x. 0)\<rparr>"

definition section_header :: "32 word \<Rightarrow> 64 word \<Rightarrow> 64 word \<Rightarrow> 64 word \<Rightarrow> 32 word \<Rightarrow> 32 word
    \<Rightarrow> 64 Elf_Shdr" where
  "section_header t f off sz l i =
     \<lparr>sh_type = t, sh_flags = f, sh_offset = off, sh_size = sz, sh_link = l, sh_info = i\<rparr>"

definition null_sym :: "64 Elf_Sym" where
  "null_sym = \<lparr>st_name = 0, st_info = 0, st_shndx = 0, st_value = 0\<rparr>"

definition null_rela :: "64 Elf_Rela" where
  "null_rela = \<lparr>r_offset = 0, r_info = 0, r_addend = 0\<rparr>"

definition host_of :: "(string \<Rightarrow> 64 word) \<Rightarrow> 64 elf_file \<Rightarrow> 64 host" where
  "host_of resolver bin =
     \<lparr>dlsym = resolver,
      file_system = (\<lambda>f. if f = ''a.o'' then Contents bin
                         else Fopen_failed ''No such file or directory''),
      mmap_result = 0x10000, malloc_ok = True\<rparr>"

definition libc :: "string \<Rightarrow> 64 word" where
  "libc n = (if n = ''strlen'' then 0x7f0000001000 else 0)"

definition call_object :: "string \<Rightarrow> 64 word \<Rightarrow> 64 elf_file" where
  "call_object callee ty =
     \<lparr>e_ident = [0x7f, 0x45, 0x4c, 0x46, 2, 1, 1, 0, 0, 0, 0, 0, 0, 0, 0, 0],
      shdrs = [section_header 0 0 0 0 0 0,
               section_header 1 6 0x40 0x20 0 0,
               section_header 4 0x40 0x100 24 3 1,
               section_header 2 0 0x200 72 4 2,
               section_header 3 0 0x300 0x200 0 0],
      byte_at = (\<lambda>x. 0x90),
      sym_at = (\<lambda>x. if x = 0x218
                      then \<lparr>st_name = 1, st_info = 0x12, st_shndx = 1, st_value = 0\<rparr>
                    else if x = 0x230
                      then \<lparr>st_name = 7, st_info = 0x10, st_shndx = 0, st_value = 0\<rparr>
                    else null_sym),
      rela_at = (\<lambda>x. if x = 0x100
                       then \<lparr>r_offset = 5, r_info = push_bit 32 2 OR ty, r_addend = - 4\<rparr>
                     else null_rela),
      str_at = (\<lambda>x. if x = 0x301 then ''hello'' else if x = 0x307 then callee else [])\<rparr>"

definition elf32_object :: "64 elf_file" where
  "elf32_object =
     \<lparr>e_ident = [0x7f, 0x45, 0x4c, 0x46, 1, 1, 1, 0, 0, 0, 0, 0, 0, 0, 0, 0],
      shdrs = [],
      byte_at = (\<lambda>x. 0), sym_at = (\<lambda>x. null_sym), rela_at = (\<lambda>x. null_rela),
      str_at = (\<lambda>x. [])\<rparr>"

section \<open>Where the engine is\<close>

text \<open>
  The inner loop runs for section \<open>i\<close>: it is a relocation section whose target
  section exists and is allocatable.
\<close>

definition applies_relocs :: "'a::len elf_file \<Rightarrow> 'a word list \<Rightarrow> nat \<Rightarrow> bool" where
  "applies_relocs bin addrs i \<longleftrightarrow>
     i < length (shdrs bin)
     \<and> (sh_type (shdrs bin ! i) = SHT_REL \<or> sh_type (shdrs bin ! i) = SHT_RELA)
     \<and> unat (sh_info (shdrs bin ! i)) < length (shdrs bin)
     \<and> sh_flags (shdrs bin ! unat (sh_info (shdrs bin ! i))) AND SHF_ALLOC \<noteq> 0
     \<and> unat (sh_info (shdrs bin ! i)) < length addrs"

text \<open>
  The state in which \<open>relocate\<close> starts on relocation \<open>j\<close> of section \<open>i\<close>: the
  sections before \<open>i\<close> and the relocations before \<open>j\<close> have been gone through
  (\<open>Inl\<close> when one of them ended the function or read beyond \<open>addrs\<close>).
\<close>

definition engine_at :: "'a::len host \<Rightarrow> 'a elf_file \<Rightarrow> 'a word option \<Rightarrow> 'a word option
    \<Rightarrow> 'a word list \<Rightarrow> bool \<Rightarrow> 'a state \<Rightarrow> nat \<Rightarrow> nat
    \<Rightarrow> 'a state error + 'a word \<times> 'a state" where
  "engine_at h bin st str addrs code_size_only s i j =
     (case for_each (relocate_section h bin st str addrs code_size_only) [0..<i] (0, s) of
        Inl e \<Rightarrow> Inl e
      | Inr x \<Rightarrow>
          for_each (relocate_one h bin st str addrs code_size_only (shdrs bin ! i)
                      (addrs ! unat (sh_info (shdrs bin ! i)))) [0..<j] x)"

text \<open>
  The arguments with which \<open>objopen\<close> calls \<open>relocate\<close>, through \<open>load_object\<close>:
  the buffer with the symbol values rewritten, the tables, the section addresses, the
  symbol records and the state; \<open>None\<close> when \<open>objopen\<close> does not get there.
\<close>

definition before_relocate :: "'a::len host \<Rightarrow> string \<Rightarrow> 'a state
    \<Rightarrow> ('a elf_file \<times> 'a tables \<times> 'a word list \<times> 'a symbol list \<times> 'a state) option" where
  "before_relocate h filename s =
     (let s1 = (if code s = 0 then init h s else s) in
      if code s1 = MAP_FAILED then None
      else
        (case file_system h filename of
           Contents bin \<Rightarrow>
             if malloc_ok h \<and> take 4 (e_ident bin) = ELFMAG then
               (let t = find_tables bin;
                    (addrs, sp) = place_sections bin s1
                in case emit_symbols t addrs bin of
                     Inl e \<Rightarrow> None
                   | Inr (bin1, syms) \<Rightarrow> Some (bin1, t, addrs, syms, sp))
             else None
         | _ \<Rightarrow> None))"

text \<open>The relocation types the two targets know, as the specification lists them.\<close>

definition known_reloc :: "'a::len word \<Rightarrow> bool" where
  "known_reloc ty \<longleftrightarrow>
     (if LENGTH('a) = 64
      then ty = R_X86_64_64 \<or> ty = R_X86_64_PC32 \<or> ty = R_X86_64_PLT32
           \<or> ty = R_X86_64_REX_GOTPCRELX
      else ty = R_386_32 \<or> ty = R_386_PC32)"

definition debug_object :: "64 elf_file" where
  "debug_object =
     \<lparr>e_ident = [0x7f, 0x45, 0x4c, 0x46, 2, 1, 1, 0, 0, 0, 0, 0, 0, 0, 0, 0],
      shdrs = [section_header 0 0 0 0 0 0,
               section_header 1 0 0x40 0x20 0 0,
               section_header 4 0x40 0x100 24 3 1,
               section_header 2 0 0x200 24 4 1,
               section_header 3 0 0x300 1 0 0],
      byte_at = (\<lambda>x. 0),
      sym_at = (\<lambda>x. null_sym),
      rela_at = (\<lambda>x. if x = 0x100 then \<lparr>r_offset = 6, r_info = 10, r_addend = 0\<rparr>
                     else null_rela),
      str_at = (\<lambda>x. [])\<rparr>"

text \<open>
  The state once the sections of \<open>call_object\<close> are placed in a fresh arena, the
  contents of memory aside, and the section addresses then.
\<close>

definition placed :: "64 state" where
  "placed = start\<lparr>code := 0x10000, code_used := 0x20\<rparr>"

definition placed_addrs :: "64 word list" where
  "placed_addrs = [0, 0x10000, 0, 0, 0]"

section \<open>Sizing\<close>

text \<open>
  The types of the relocation records the engine goes through, in its order: those of
  the relocation sections whose target section is allocatable.
\<close>

definition section_reloc_types :: "'a::len elf_file \<Rightarrow> 'a word list \<Rightarrow> nat \<Rightarrow> 'a word list" where
  "section_reloc_types bin addrs i =
     (if applies_relocs bin addrs i
      then map (\<lambda>j. ELF_R_TYPE (r_info (reloc_record bin (shdrs bin ! i) j)))
             [0..<nat (relnum_of (shdrs bin ! i))]
      else [])"

definition reloc_types :: "'a::len elf_file \<Rightarrow> 'a word list \<Rightarrow> 'a word list" where
  "reloc_types bin addrs =
     concat (map (section_reloc_types bin addrs) [0..<length (shdrs bin)])"

text \<open>
  The bytes a relocation needs in the arena: 14 for a trampoline, 8 for a slot, on
  x86-64 only.
\<close>

definition reloc_code_size :: "'a::len word \<Rightarrow> 'a word" where
  "reloc_code_size ty =
     (if LENGTH('a) = 64 \<and> ty = R_X86_64_PLT32 then 14
      else if LENGTH('a) = 64 \<and> ty = R_X86_64_REX_GOTPCRELX then 8
      else 0)"

text \<open>
  \<open>addrs\<close> has one entry for each section, as \<open>load_object\<close> declares it, and
  the \<open>sh_info\<close> of every section is an index of it (for a relocation section, the
  index of its target section).
\<close>

definition reloc_sections_ok :: "'a::len elf_file \<Rightarrow> 'a word list \<Rightarrow> bool" where
  "reloc_sections_ok bin addrs \<longleftrightarrow>
     length addrs = length (shdrs bin)
     \<and> (\<forall>i<length (shdrs bin). unat (sh_info (shdrs bin ! i)) < length (shdrs bin))"

section \<open>Observations for the placement\<close>

text \<open>Two opens in a row, the second in the state the first one leaves.\<close>

definition open_two :: "'a::len host \<Rightarrow> string \<Rightarrow> string \<Rightarrow> 'a state
    \<Rightarrow> 'a state error + 'a obj_handle option \<times> 'a state" where
  "open_two h first second s =
     (case objopen h first 0 s of
        Inl e \<Rightarrow> Inl e
      | Inr (obj, s1) \<Rightarrow> objopen h second 0 s1)"

text \<open>What \<open>objsym\<close> gives on the handle of an open, when there is one.\<close>

definition lookup_after :: "'a::len state error + 'a obj_handle option \<times> 'a state \<Rightarrow> string
    \<Rightarrow> 'a word option" where
  "lookup_after r n = (case handle_of r of None \<Rightarrow> None | Some obj \<Rightarrow> Some (objsym obj n))"

text \<open>
  An object with an object symbol \<open>tag\<close> at offset 16 of section 1, which is not
  allocatable.
\<close>

definition stray_object :: "64 elf_file" where
  "stray_object =
     \<lparr>e_ident = [0x7f, 0x45, 0x4c, 0x46, 2, 1, 1, 0, 0, 0, 0, 0, 0, 0, 0, 0],
      shdrs = [section_header 0 0 0 0 0 0,
               section_header 1 0 0x40 0x20 0 0,
               section_header 2 0 0x200 48 3 1,
               section_header 3 0 0x300 5 0 0],
      byte_at = (\<lambda>x. 0),
      sym_at = (\<lambda>x. if x = 0x218
                      then \<lparr>st_name = 1, st_info = 0x11, st_shndx = 1, st_value = 0x10\<rparr>
                    else null_sym),
      rela_at = (\<lambda>x. null_rela),
      str_at = (\<lambda>x. if x = 0x301 then ''tag'' else [])\<rparr>"

text \<open>
  The allocatable sections among those with the indices given, placed in this order
  from the offset \<open>used\<close> of the arena as \<open>place_section\<close> does, each end inside the
  arena.
\<close>

fun sections_fit :: "'a::len elf_file \<Rightarrow> nat list \<Rightarrow> 'a word \<Rightarrow> bool" where
  "sections_fit bin [] used = True"
| "sections_fit bin (i # is) used =
     (if sh_flags (shdrs bin ! i) AND SHF_ALLOC \<noteq> 0
      then unat used + unat (sh_size (shdrs bin ! i)) \<le> unat (arena_size :: 'a word)
           \<and> sections_fit bin is (align_up (used + sh_size (shdrs bin ! i)) 16)
      else sections_fit bin is used)"

text \<open>
  Every function and object symbol of the symbol table is defined in an allocatable
  section, at an offset below the size of the section.
\<close>

definition symbol_defined :: "'a::len elf_file \<Rightarrow> 'a Elf_Sym \<Rightarrow> bool" where
  "symbol_defined bin esym \<longleftrightarrow>
     unat (st_shndx esym) < length (shdrs bin)
     \<and> sh_flags (shdrs bin ! unat (st_shndx esym)) AND SHF_ALLOC \<noteq> 0
     \<and> st_value esym < sh_size (shdrs bin ! unat (st_shndx esym))"

definition symbols_defined :: "'a::len elf_file \<Rightarrow> bool" where
  "symbols_defined bin \<longleftrightarrow>
     (case symtab (find_tables bin) of
        None \<Rightarrow> True
      | Some st \<Rightarrow>
          list_all (\<lambda>k. let esym = sym_at bin (st + sizeof_Elf_Sym * of_nat k)
                        in ELF_ST_TYPE (st_info esym) = STT_OBJECT
                           \<or> ELF_ST_TYPE (st_info esym) = STT_FUNC
                           \<longrightarrow> symbol_defined bin esym)
            [0..<nat (symnum (find_tables bin))])"

text \<open>
  An object with one allocatable data section of 16 bytes and the object symbol
  \<open>counter\<close> at its start; and a process in which \<open>a.o\<close> is \<open>call_object\<close> with
  its call to \<open>strlen\<close>, and \<open>b.o\<close> is this object.
\<close>

definition data_object :: "64 elf_file" where
  "data_object =
     \<lparr>e_ident = [0x7f, 0x45, 0x4c, 0x46, 2, 1, 1, 0, 0, 0, 0, 0, 0, 0, 0, 0],
      shdrs = [section_header 0 0 0 0 0 0,
               section_header 1 3 0x40 0x10 0 0,
               section_header 2 0 0x200 48 3 1,
               section_header 3 0 0x300 9 0 0],
      byte_at = (\<lambda>x. if x = 0x40 then 7 else 0),
      sym_at = (\<lambda>x. if x = 0x218
                      then \<lparr>st_name = 1, st_info = 0x11, st_shndx = 1, st_value = 0\<rparr>
                    else null_sym),
      rela_at = (\<lambda>x. null_rela),
      str_at = (\<lambda>x. if x = 0x301 then ''counter'' else [])\<rparr>"

definition two_files :: "64 host" where
  "two_files =
     \<lparr>dlsym = libc,
      file_system = (\<lambda>f. if f = ''a.o'' then Contents (call_object ''strlen'' 4)
                         else if f = ''b.o'' then Contents data_object
                         else Fopen_failed ''No such file or directory''),
      mmap_result = 0x10000, malloc_ok = True\<rparr>"

section \<open>Symbol lookup\<close>

lemma objsym_loop_first:
  "i < length ss \<Longrightarrow> name (ss ! i) = n \<Longrightarrow> \<forall>j<i. name (ss ! j) \<noteq> n
     \<Longrightarrow> objsym_loop ss n = addr (ss ! i)"
proof (induction ss arbitrary: i)
  case Nil
  then show ?case by simp
next
  case (Cons s ss)
  show ?case
  proof (cases i)
    case 0
    with Cons.prems show ?thesis by simp
  next
    case (Suc k)
    from Cons.prems Suc have "name s \<noteq> n" by auto
    moreover from Cons.prems Suc have "objsym_loop ss n = addr (ss ! k)"
      by (intro Cons.IH) auto
    ultimately show ?thesis using Suc by simp
  qed
qed

lemma objsym_loop_none:
  "\<forall>s \<in> set ss. name s \<noteq> n \<Longrightarrow> objsym_loop ss n = 0"
  by (induction ss) auto

text \<open>
  C7. \<open>objsym\<close> scans the symbols of the handle in order, comparing names byte by
  byte: it returns the address of the first record whose name is the queried one (so
  with duplicate names the first in table order wins), and null when no record has
  that name.
\<close>

theorem objsym_first_match:
  "(\<forall>i < length (symbols obj).
      name (symbols obj ! i) = n \<and> (\<forall>j<i. name (symbols obj ! j) \<noteq> n)
      \<longrightarrow> objsym obj n = addr (symbols obj ! i))
   \<and> ((\<forall>s \<in> set (symbols obj). name s \<noteq> n) \<longrightarrow> objsym obj n = 0)"
  by (auto simp: objsym_def objsym_loop_first objsym_loop_none)

theorem objsym_first_match_witness:
  "objsym \<lparr>symbols = [\<lparr>name = ''f'', addr = 16\<rparr>, \<lparr>name = ''g'', addr = 32\<rparr>,
                      \<lparr>name = ''g'', addr = 48\<rparr>],
           obj_code = 0, obj_code_size = 0, obj_code_used = 0\<rparr> ''g'' = (32 :: 64 word)
   \<and> objsym \<lparr>symbols = [\<lparr>name = ''f'', addr = 16\<rparr>],
             obj_code = 0, obj_code_size = 0, obj_code_used = 0\<rparr> ''h'' = (0 :: 64 word)"
proof -
  let ?h = "\<lparr>symbols = [\<lparr>name = ''f'', addr = 16 :: 64 word\<rparr>, \<lparr>name = ''g'', addr = 32\<rparr>,
                      \<lparr>name = ''g'', addr = 48\<rparr>],
           obj_code = 0 :: 64 word, obj_code_size = 0, obj_code_used = 0\<rparr>"
  let ?k = "\<lparr>symbols = [\<lparr>name = ''f'', addr = 16 :: 64 word\<rparr>],
           obj_code = 0 :: 64 word, obj_code_size = 0, obj_code_used = 0\<rparr>"
  have a: "objsym ?h ''g'' = addr (symbols ?h ! 1)"
    using objsym_first_match [of ?h "''g''"] by (simp add: less_Suc_eq)
  have b: "objsym ?k ''h'' = 0"
    using objsym_first_match [of ?k "''h''"] by simp
  from a b show ?thesis by simp
qed

lemma handle_ofD:
  "handle_of r = Some obj \<Longrightarrow> \<exists>s. r = Inr (Some obj, s)"
  by (auto simp: handle_of_def split: sum.splits option.splits prod.splits)

section \<open>The check of the header\<close>

text \<open>
  C6 (as stated, fails). The buffer starts with the magic and its class byte is
  \<open>ELFCLASS32\<close>; the loader, built for 8-byte pointers, returns a handle and sets no
  message: the class byte is never read.
\<close>

theorem objopen_ignores_class:
  "take 4 (e_ident elf32_object) = ELFMAG \<and> e_ident elf32_object ! EI_CLASS = ELFCLASS32
   \<and> outcome (objopen (host_of libc elf32_object) ''a.o'' 0 start) = Some (Some new_obj, [])"
  by code_simp

text \<open>
  C6 (amended). \<open>objopen\<close> checks that the buffer begins with the ELF magic, and only
  that: when the first four bytes differ from it, \<open>objopen\<close> returns the null handle
  and the error string is the file name followed by \<open>is not ELF\<close>.
\<close>

theorem objopen_not_elf:
  assumes "s1 = (if code s = 0 then init h s else s)"
    and "code s1 \<noteq> MAP_FAILED"
    and "file_system h filename = Contents bin"
    and "malloc_ok h"
    and "take 4 (e_ident bin) \<noteq> ELFMAG"
  shows "objopen h filename flags s = Inr (None, s1\<lparr>obj_error := filename @ '' is not ELF''\<rparr>)"
  using assms by (simp add: objopen_def read_file_def Let_def)

theorem objopen_not_elf_witness:
  "outcome (objopen (host_of libc (elf32_object\<lparr>e_ident := [0x23, 0x21, 0x2f, 0x62]\<rparr>)) ''a.o'' 0 start)
     = Some (None, ''a.o is not ELF'')"
proof -
  let ?bin = "elf32_object\<lparr>e_ident := [0x23, 0x21, 0x2f, 0x62]\<rparr>"
  let ?h = "host_of libc ?bin"
  let ?s1 = "if code start = 0 then init ?h start else start"
  have a: "code ?s1 \<noteq> MAP_FAILED" by code_simp
  have b: "file_system ?h ''a.o'' = Contents ?bin" by (simp add: host_of_def)
  have c: "malloc_ok ?h" by (simp add: host_of_def)
  have d: "take 4 (e_ident ?bin) \<noteq> ELFMAG" by (simp add: ELFMAG_def)
  show ?thesis
    using objopen_not_elf [OF refl a b c d, of 0] by (simp add: outcome_def)
qed

section \<open>Closing a handle\<close>

lemma load_object_obj_code:
  "load_object h obj bin filename s = Inr (r, obj', s') \<Longrightarrow> obj_code obj' = obj_code obj"
  by (auto simp: load_object_def Let_def split: prod.splits sum.splits error.splits)

lemma objopen_obj_code:
  "objopen h filename flags s = Inr (Some obj, s') \<Longrightarrow> obj_code obj = 0"
  by (auto simp: objopen_def Let_def new_obj_def split: if_splits prod.splits option.splits sum.splits
      dest!: load_object_obj_code)

text \<open>
  C5 (as stated, fails). The handle of a successful \<open>objopen\<close> is closed: the names
  and the handle are freed, and no mapping is released.
\<close>

theorem objclose_keeps_arena:
  "map_option objclose (handle_of (objopen (host_of libc (call_object ''strlen'' 4)) ''a.o'' 0 start))
     = Some (0, [Free_name 0, Free_obj])"
  by code_simp

text \<open>
  C5 (amended). \<open>objclose\<close> on a handle that \<open>objopen\<close> returned gives 0, frees the
  name of every symbol record and then the handle, and releases no mapping: in this
  build the arena is shared by all handles, \<open>obj->code\<close> is null in each of them, and
  \<open>munmap\<close> is not called.
\<close>

theorem objclose_after_objopen:
  assumes "objopen h filename flags s = Inr (Some obj, s')"
  shows "objclose obj = (0, map Free_name [0..<length (symbols obj)] @ [Free_obj])"
  using objopen_obj_code [OF assms] by (simp add: objclose_def)

theorem objclose_after_objopen_witness:
  "handle_of (objopen (host_of libc (call_object ''strlen'' 4)) ''a.o'' 0 start)
     = Some \<lparr>symbols = [\<lparr>name = ''hello'', addr = 0x10000\<rparr>],
             obj_code = 0, obj_code_size = 0, obj_code_used = 0\<rparr>
   \<and> objclose \<lparr>symbols = [\<lparr>name = ''hello'', addr = 0x10000 :: 64 word\<rparr>],
                obj_code = 0, obj_code_size = 0, obj_code_used = 0\<rparr>
       = (0, [Free_name 0, Free_obj])"
proof -
  let ?obj = "\<lparr>symbols = [\<lparr>name = ''hello'', addr = 0x10000 :: 64 word\<rparr>],
               obj_code = 0, obj_code_size = 0, obj_code_used = 0\<rparr>"
  have a: "handle_of (objopen (host_of libc (call_object ''strlen'' 4)) ''a.o'' 0 start)
             = Some ?obj"
    by code_simp
  from handle_ofD [OF a] obtain s' where
    "objopen (host_of libc (call_object ''strlen'' 4)) ''a.o'' 0 start = Inr (Some ?obj, s')"
    by (rule exE)
  from objclose_after_objopen [OF this] a show ?thesis
    by simp
qed

section \<open>The size of the error string\<close>

text \<open>
  C9 (the code differs). An object refers to an undefined symbol whose name has 300
  characters, which the resolver does not know: \<open>sprintf\<close> writes the whole message,
  318 characters and the terminator, while \<open>obj_error\<close> has 256 bytes.
\<close>

theorem obj_error_overflow:
  "outcome (objopen (host_of libc (call_object (replicate 300 CHR ''a'') 4)) ''a.o'' 0 start)
     = Some (None, ''failed to resolve '' @ replicate 300 CHR ''a'')
   \<and> obj_error_size < length (''failed to resolve '' @ replicate 300 CHR ''a'') + 1"
  by code_simp

section \<open>Loops that end early\<close>

lemma for_each_append:
  "for_each body (xs @ ys) s =
     (case for_each body xs s of Inl e \<Rightarrow> Inl e | Inr s' \<Rightarrow> for_each body ys s')"
  by (induction xs arbitrary: s) (auto split: sum.splits)

lemma upt_split_at:
  assumes "j < n"
  shows "[0..<n] = [0..<j] @ j # [Suc j..<n]"
proof -
  have "[0..<j + (n - j)] = [0..<j] @ [j..<j + (n - j)]"
    by (rule upt_add_eq_append) simp
  with assms have "[0..<n] = [0..<j] @ [j..<n]" by simp
  with assms show ?thesis by (simp add: upt_conv_Cons)
qed

lemma for_each_fails_at:
  assumes "j < n" and "for_each body [0..<j] s = Inr x" and "body j x = Inl e"
  shows "for_each body [0..<n] s = Inl e"
  using assms(2,3) by (simp add: upt_split_at [OF assms(1)] for_each_append)

section \<open>Failures of the relocation engine end the open\<close>

lemma relocate_section_applies:
  assumes "applies_relocs bin addrs i"
  shows "relocate_section h bin st str addrs cso i x =
     for_each (relocate_one h bin st str addrs cso (shdrs bin ! i)
                 (addrs ! unat (sh_info (shdrs bin ! i))))
       [0..<nat (relnum_of (shdrs bin ! i))] x"
proof -
  obtain code_size s where x: "x = (code_size, s)" by (cases x)
  from assms have "\<not> (sh_type (shdrs bin ! i) \<noteq> SHT_REL \<and> sh_type (shdrs bin ! i) \<noteq> SHT_RELA)"
    and "unat (sh_info (shdrs bin ! i)) < length (shdrs bin)"
    and "sh_flags (shdrs bin ! unat (sh_info (shdrs bin ! i))) AND SHF_ALLOC \<noteq> 0"
    and "unat (sh_info (shdrs bin ! i)) < length addrs"
    by (simp_all add: applies_relocs_def)
  then show ?thesis
    unfolding x relocate_section_def index_addrs_def Let_def by auto
qed

lemma relocate_fails_at:
  assumes "applies_relocs bin addrs i"
    and "j < nat (relnum_of (shdrs bin ! i))"
    and "engine_at h bin st str addrs cso s i j = Inr x"
    and "relocate_one h bin st str addrs cso (shdrs bin ! i)
           (addrs ! unat (sh_info (shdrs bin ! i))) j x = Inl e"
  shows "relocate h bin st str addrs cso s = Inl e"
proof -
  from assms(3) obtain y where
    y: "for_each (relocate_section h bin st str addrs cso) [0..<i] (0, s) = Inr y"
    and x: "for_each (relocate_one h bin st str addrs cso (shdrs bin ! i)
                       (addrs ! unat (sh_info (shdrs bin ! i)))) [0..<j] y = Inr x"
    unfolding engine_at_def by (cases "for_each (relocate_section h bin st str addrs cso) [0..<i] (0, s)") simp_all
  from for_each_fails_at [OF assms(2) x assms(4)]
  have f: "relocate_section h bin st str addrs cso i y = Inl e"
    by (simp add: relocate_section_applies [OF assms(1)])
  from assms(1) have i: "i < length (shdrs bin)"
    by (simp add: applies_relocs_def)
  show ?thesis
    unfolding relocate_def by (rule for_each_fails_at [OF i y f])
qed

lemma objopen_relocate:
  assumes "before_relocate h filename s = Some (bin1, t, addrs, syms, sp)"
  shows "objopen h filename flags s =
     (case relocate h bin1 (symtab t) (strtab t) addrs False sp of
        Inl UB \<Rightarrow> Inl UB
      | Inl (Fail s2) \<Rightarrow> Inr (None, s2)
      | Inr (code_size, s2) \<Rightarrow> Inr (Some (new_obj\<lparr>symbols := syms\<rparr>), s2))"
  using assms
  by (auto simp: before_relocate_def objopen_def read_file_def load_object_def Let_def
      split: if_splits file_result.splits prod.splits sum.splits error.splits)

lemma objopen_fails_at:
  assumes "before_relocate h filename s = Some (bin1, t, addrs, syms, sp)"
    and "applies_relocs bin1 addrs i"
    and "j < nat (relnum_of (shdrs bin1 ! i))"
    and "engine_at h bin1 (symtab t) (strtab t) addrs False sp i j = Inr x"
    and "relocate_one h bin1 (symtab t) (strtab t) addrs False (shdrs bin1 ! i)
           (addrs ! unat (sh_info (shdrs bin1 ! i))) j x = Inl (Fail s2)"
  shows "objopen h filename flags s = Inr (None, s2)"
  by (simp add: objopen_relocate [OF assms(1)] relocate_fails_at [OF assms(2-5)])


lemma relocate_sections_skipped:
  assumes "\<forall>k<i. unat (sh_info (shdrs bin ! k)) < length addrs
                \<and> sh_type (shdrs bin ! k) \<noteq> SHT_REL \<and> sh_type (shdrs bin ! k) \<noteq> SHT_RELA"
  shows "for_each (relocate_section h bin st str addrs cso) [0..<i] x = Inr x"
  using assms
proof (induction i)
  case 0
  then show ?case by simp
next
  case (Suc i)
  then have "relocate_section h bin st str addrs cso i x = Inr x"
    by (cases x) (simp add: relocate_section_def index_addrs_def Let_def)
  with Suc show ?case by (simp add: for_each_append)
qed

lemma engine_at_first:
  assumes "\<forall>k<i. unat (sh_info (shdrs bin ! k)) < length addrs
                \<and> sh_type (shdrs bin ! k) \<noteq> SHT_REL \<and> sh_type (shdrs bin ! k) \<noteq> SHT_RELA"
  shows "engine_at h bin st str addrs cso s i 0 = Inr (0, s)"
  by (simp add: engine_at_def relocate_sections_skipped [OF assms])

lemma before_relocate_the:
  "before_relocate h filename s \<noteq> None \<Longrightarrow>
   before_relocate h filename s
     = Some (fst (the (before_relocate h filename s)),
             fst (snd (the (before_relocate h filename s))),
             fst (snd (snd (the (before_relocate h filename s)))),
             fst (snd (snd (snd (the (before_relocate h filename s))))),
             snd (snd (snd (snd (the (before_relocate h filename s))))))"
  by auto

section \<open>Undefined symbols\<close>




section \<open>Unknown relocation types\<close>

lemma reloc_apply_unknown:
  "\<not> known_reloc ty \<Longrightarrow>
   reloc_apply cso ty target a addend (code_size, s)
     = Inl (Fail (s\<lparr>obj_error := ''Unknown reloc: '' @ decimal (unat ty)\<rparr>))"
  by (cases "LENGTH('a) = 64")
     (simp_all add: reloc_apply_def known_reloc_def R_32_def R_64_def R_PC32_def R_PLT32_def)

text \<open>
  C8 (as stated, fails). The object has a relocation record of type 10, which the
  loader does not know, in a relocation section whose target section is not
  allocatable (as the relocations of debug sections are): \<open>objopen\<close> returns a handle
  and sets no message.
\<close>

theorem unknown_reloc_skipped:
  "\<not> known_reloc (ELF_R_TYPE (r_info (reloc_record debug_object (shdrs debug_object ! 2) 0)))
   \<and> outcome (objopen (host_of libc debug_object) ''a.o'' 0 start) = Some (Some new_obj, [])"
  by code_simp

text \<open>
  C8 (amended). The engine, applying relocations for \<open>objopen\<close>, is at relocation
  \<open>j\<close> of section \<open>i\<close> (a relocation section whose target section is allocatable),
  the symbol of the relocation has an address, and the type of the relocation is not
  one of those listed for the target (\<open>R_X86_64_64\<close>, \<open>R_X86_64_PC32\<close>,
  \<open>R_X86_64_PLT32\<close>, \<open>R_X86_64_REX_GOTPCRELX\<close> with 8-byte pointers; \<open>R_386_32\<close>,
  \<open>R_386_PC32\<close> otherwise). Then \<open>objopen\<close> returns the null handle and the error
  string is \<open>Unknown reloc:\<close> followed by the type number in decimal.
\<close>

theorem unknown_reloc_fails_open:
  assumes "before_relocate h filename s = Some (bin1, t, addrs, syms, sp)"
    and "applies_relocs bin1 addrs i"
    and "j < nat (relnum_of (shdrs bin1 ! i))"
    and "engine_at h bin1 (symtab t) (strtab t) addrs False sp i j = Inr (code_size, sx)"
    and "rel = reloc_record bin1 (shdrs bin1 ! i) j"
    and "reloc_sym_addr h bin1 (symtab t) (strtab t) addrs rel sx = Inr a"
    and "\<not> known_reloc (ELF_R_TYPE (r_info rel))"
  shows "objopen h filename flags s
           = Inr (None, sx\<lparr>obj_error := ''Unknown reloc: ''
                                   @ decimal (unat (ELF_R_TYPE (r_info rel)))\<rparr>)"
proof (rule objopen_fails_at [OF assms(1-4)])
  show "relocate_one h bin1 (symtab t) (strtab t) addrs False (shdrs bin1 ! i)
          (addrs ! unat (sh_info (shdrs bin1 ! i))) j (code_size, sx)
        = Inl (Fail (sx\<lparr>obj_error := ''Unknown reloc: ''
                                   @ decimal (unat (ELF_R_TYPE (r_info rel)))\<rparr>))"
    using assms(6) reloc_apply_unknown [OF assms(7)]
    by (simp add: relocate_one_def assms(5) [symmetric] Let_def)
qed

theorem unknown_reloc_fails_open_witness:
  "outcome (objopen (host_of libc (call_object ''strlen'' 10)) ''a.o'' 0 start)
     = Some (None, ''Unknown reloc: 10'')"
proof -
  let ?h = "host_of libc (call_object ''strlen'' 10)"
  let ?w = "the (before_relocate ?h ''a.o'' start)"
  let ?bin1 = "fst ?w"
  let ?t = "fst (snd ?w)"
  let ?addrs = "fst (snd (snd ?w))"
  let ?sp = "snd (snd (snd (snd ?w)))"
  let ?rel = "reloc_record ?bin1 (shdrs ?bin1 ! 2) 0"
  have "before_relocate ?h ''a.o'' start \<noteq> None" by code_simp
  note 1 = before_relocate_the [OF this]
  have 2: "applies_relocs ?bin1 ?addrs 2" by code_simp
  have 3: "0 < nat (relnum_of (shdrs ?bin1 ! 2))" by code_simp
  have "\<forall>k<2. unat (sh_info (shdrs ?bin1 ! k)) < length ?addrs
               \<and> sh_type (shdrs ?bin1 ! k) \<noteq> SHT_REL \<and> sh_type (shdrs ?bin1 ! k) \<noteq> SHT_RELA"
    by code_simp
  note 4 = engine_at_first [where h = ?h and st = "symtab ?t" and str = "strtab ?t"
      and cso = False and s = ?sp, OF this]
  have 6: "reloc_sym_addr ?h ?bin1 (symtab ?t) (strtab ?t) ?addrs ?rel ?sp = Inr 0x7f0000001000"
    by code_simp
  have 7: "\<not> known_reloc (ELF_R_TYPE (r_info ?rel))" by code_simp
  have 8: "decimal (unat (ELF_R_TYPE (r_info ?rel))) = ''10''" by code_simp
  from unknown_reloc_fails_open [OF 1 2 3 4 refl 6 7, of 0] 8
  show ?thesis by (simp add: outcome_def)
qed

section \<open>Bytes and words\<close>

lemma of_le_step:
  fixes w :: "'b::len word"
  shows "ucast (ucast w :: byte) OR push_bit 8 (take_bit n (drop_bit 8 w)) = take_bit (n + 8) w"
  by (rule bit_word_eqI) (auto simp: bit_simps)

lemma of_le_bytes_from:
  fixes v :: "'b::len word"
  shows "of_le (map (\<lambda>k. ucast (drop_bit (8 * (i + k)) v) :: byte) [0..<n])
           = (take_bit (8 * n) (drop_bit (8 * i) v) :: 'b word)"
proof (induction n arbitrary: i)
  case 0
  then show ?case by simp
next
  case (Suc n)
  have "map (\<lambda>k. ucast (drop_bit (8 * (i + k)) v) :: byte) [0..<Suc n]
          = ucast (drop_bit (8 * i) v)
            # map (\<lambda>k. ucast (drop_bit (8 * (Suc i + k)) v)) [0..<n]"
    by (simp add: upt_conv_Cons map_Suc_upt [symmetric] ac_simps del: upt_Suc)
  moreover have "drop_bit (8 * Suc i) v = drop_bit 8 (drop_bit (8 * i) v)"
    by (simp add: drop_bit_drop_bit add.commute)
  ultimately show ?case
    using Suc.IH [of "Suc i"] of_le_step [of "drop_bit (8 * i) v" "8 * n"]
    by (simp add: ac_simps)
qed

lemma of_le_le_bytes:
  fixes v :: "'b::len word"
  assumes "LENGTH('b) \<le> 8 * n"
  shows "of_le (le_bytes n v) = v"
  using of_le_bytes_from [of 0 v n] assms
  by (simp add: le_bytes_def take_bit_word_eq_self)

lemma write_bytes_at:
  fixes a :: "'a::len word"
  assumes "k < length bs" and "length bs \<le> 2 ^ LENGTH('a)"
  shows "write_bytes m a bs (a + of_nat k) = bs ! k"
  using assms by (simp add: write_bytes_def unat_of_nat)

lemma read_bytes_write_bytes:
  fixes a :: "'a::len word"
  assumes "i + n \<le> length bs" and "length bs \<le> 2 ^ LENGTH('a)"
  shows "read_bytes (write_bytes m a bs) (a + of_nat i) n = take n (drop i bs)"
proof (rule nth_equalityI)
  show "length (read_bytes (write_bytes m a bs) (a + of_nat i) n) = length (take n (drop i bs))"
    using assms by (simp add: read_bytes_def)
next
  fix k assume "k < length (read_bytes (write_bytes m a bs) (a + of_nat i) n)"
  then have k: "k < n" by (simp add: read_bytes_def)
  have "write_bytes m a bs (a + of_nat (i + k)) = bs ! (i + k)"
    using k assms by (intro write_bytes_at) auto
  with k assms show "read_bytes (write_bytes m a bs) (a + of_nat i) n ! k = take n (drop i bs) ! k"
    by (simp add: read_bytes_def add.assoc)
qed

lemma write_bytes_outside:
  "length bs \<le> unat (x - a) \<Longrightarrow> write_bytes m a bs x = m x"
  by (simp add: write_bytes_def)

lemma length_le_bytes [simp]: "length (le_bytes n v) = n"
  by (simp add: le_bytes_def)

lemma write_trampoline_bytes:
  fixes t :: "64 word"
  shows "write_trampoline m t dest = write_bytes m t ([0xff, 0x25, 0, 0, 0, 0] @ le_bytes 8 dest)"
proof
  fix x
  define n where "n = unat (x - t)"
  have x0: "x = t \<longleftrightarrow> n = 0"
    unfolding n_def by (simp add: unat_eq_0)
  have x1: "x = t + 1 \<longleftrightarrow> n = 1"
  proof -
    have "x = t + 1 \<longleftrightarrow> x - t = 1" by (auto simp: diff_eq_eq add.commute)
    then show ?thesis
      unfolding n_def by (simp add: word_unat_eq_iff [of "x - t" 1])
  qed
  have n2: "unat (x - (t + 2)) = (if 2 \<le> n then n - 2 else n + 2 ^ 64 - 2)"
    using unat_sub_if_size [of "x - t" 2] by (simp add: n_def diff_diff_eq word_size)
  have n6: "unat (x - (t + 6)) = (if 6 \<le> n then n - 6 else n + 2 ^ 64 - 6)"
    using unat_sub_if_size [of "x - t" 6] by (simp add: n_def diff_diff_eq word_size)
  have nlt: "n < 2 ^ 64"
    unfolding n_def using unsigned_less [of "x - t"] by simp
  note d = write_trampoline_def write_u32_def write_u64_def write_bytes_def Let_def
    n_def [symmetric] le_bytes_def
  consider "n = 0" | "n = 1" | "n = 2" | "n = 3" | "n = 4" | "n = 5"
    | "6 \<le> n \<and> n < 14" | "14 \<le> n"
    by linarith
  then show "write_trampoline m t dest x
               = write_bytes m t ([0xff, 0x25, 0, 0, 0, 0] @ le_bytes 8 dest) x"
  proof cases
    case 1
    then show ?thesis using x0 x1 n2 n6 by (simp add: d)
  next
    case 2
    then show ?thesis using x0 x1 n2 n6 by (simp add: d)
  next
    case 3
    then show ?thesis using x0 x1 n2 n6 by (simp add: d)
  next
    case 4
    then show ?thesis using x0 x1 n2 n6 by (simp add: d)
  next
    case 5
    then show ?thesis using x0 x1 n2 n6 by (simp add: d)
  next
    case 6
    then show ?thesis using x0 x1 n2 n6 by (simp add: d)
  next
    case 7
    then have "([0xff, 0x25, 0, 0, 0, 0] @ le_bytes 8 dest) ! n = le_bytes 8 dest ! (n - 6)"
      and "\<not> n - 2 < 4" and "n - 6 < 8"
      by (auto simp: nth_append eval_nat_numeral)
    with 7 show ?thesis using x0 x1 n2 n6
      by (simp add: write_trampoline_def write_u32_def write_u64_def write_bytes_def Let_def
          n_def [symmetric])
  next
    case 8
    then have "\<not> n - 2 < 4" and "\<not> n - 6 < 8" and "\<not> n < 14"
      by linarith+
    with 8 show ?thesis using x0 x1 n2 n6
      by (simp add: write_trampoline_def write_u32_def write_u64_def write_bytes_def Let_def
          n_def [symmetric])
  qed
qed


lemma trampoline_opcode:
  fixes t :: "64 word"
  shows "read_bytes (write_trampoline m t dest) t 6 = [0xff, 0x25, 0, 0, 0, 0]"
  using read_bytes_write_bytes [of 0 6 "[0xff, 0x25, 0, 0, 0, 0] @ le_bytes 8 dest" m t]
  by (simp add: write_trampoline_bytes)

lemma trampoline_slot:
  fixes t :: "64 word"
  shows "read_u64 (write_trampoline m t dest) (t + 6) = dest"
  using read_bytes_write_bytes [of 6 8 "[0xff, 0x25, 0, 0, 0, 0] @ le_bytes 8 dest" m t]
  by (simp add: write_trampoline_bytes read_u64_def of_le_le_bytes)

lemma trampoline_outside:
  fixes t :: "64 word"
  shows "14 \<le> x - t \<Longrightarrow> write_trampoline m t dest x = m x"
  by (simp add: write_trampoline_bytes write_bytes_outside word_le_nat_alt)

section \<open>Procedure linkage relocations\<close>

text \<open>
  C1. On x86-64, a relocation of type \<open>R_X86_64_PLT32\<close> whose symbol has the address
  \<open>S\<close> is applied: 14 bytes are taken from the arena at \<open>T\<close>, the address of its
  first free byte; they receive \<open>FF 25\<close>, four zero bytes and the 8 bytes of \<open>S\<close>,
  and nothing else changes in memory; then the 32-bit word at the target is
  increased by \<open>(T - target) + addend\<close>. In sizing mode the same relocation
  adds 14 to the size and leaves the state alone.
\<close>

theorem plt32_trampoline:
  fixes s :: "64 state"
  assumes "rel = reloc_record bin shdr j"
    and "ELF_R_TYPE (r_info rel) = R_PLT32"
    and "reloc_sym_addr h bin st str addrs rel s = Inr S"
    and "T = code s + code_used s"
    and "target = target_base + r_offset rel"
    and "m = write_trampoline (mem s) T S"
  shows "relocate_one h bin st str addrs False shdr target_base j (code_size, s)
           = Inr (code_size,
                  s\<lparr>code_used := code_used s + 14,
                    mem := write_u32 m target
                             (read_u32 m target
                              + ucast ((T - target) + scast (reloc_addend shdr rel)))\<rparr>)
         \<and> read_bytes m T 6 = [0xff, 0x25, 0, 0, 0, 0]
         \<and> read_u64 m (T + 6) = S
         \<and> (\<forall>x. 14 \<le> x - T \<longrightarrow> m x = mem s x)
         \<and> relocate_one h bin st str addrs True shdr target_base j (code_size, s)
             = Inr (code_size + 14, s)"
proof -
  have ty: "ELF_R_TYPE (r_info (reloc_record bin shdr j)) = (4 :: 64 word)"
    using assms(1,2) by (simp add: R_PLT32_def R_X86_64_PLT32_def)
  have a: "relocate_one h bin st str addrs False shdr target_base j (code_size, s)
           = Inr (code_size,
                  s\<lparr>code_used := code_used s + 14,
                    mem := write_u32 m target
                             (read_u32 m target
                              + ucast ((T - target) + scast (reloc_addend shdr rel)))\<rparr>)"
    using assms(3) ty
    by (simp add: relocate_one_def reloc_apply_def alloc_code_def Let_def
        assms(1) [symmetric] assms(4) [symmetric] assms(5) [symmetric] assms(6) [symmetric]
        R_32_def R_64_def R_PC32_def R_PLT32_def R_386_32_def R_X86_64_64_def
        R_X86_64_PC32_def R_X86_64_PLT32_def)
  have b: "relocate_one h bin st str addrs True shdr target_base j (code_size, s)
             = Inr (code_size + 14, s)"
    using ty
    by (simp add: relocate_one_def reloc_apply_def Let_def
        R_32_def R_64_def R_PC32_def R_PLT32_def R_386_32_def R_X86_64_64_def
        R_X86_64_PC32_def R_X86_64_PLT32_def)
  from a b show ?thesis
    by (simp add: assms(6) trampoline_opcode trampoline_slot trampoline_outside)
qed

theorem plt32_trampoline_witness:
  "relocate_one (host_of libc (call_object ''strlen'' 4)) (call_object ''strlen'' 4)
       (Some 0x200) (Some 0x300) placed_addrs False
       (shdrs (call_object ''strlen'' 4) ! 2) 0x10000 0 (0, placed)
     = Inr (0, placed\<lparr>code_used := 0x2e,
                 mem := write_u32 (write_trampoline (mem placed) 0x10020 0x7f0000001000) 0x10005
                          (read_u32 (write_trampoline (mem placed) 0x10020 0x7f0000001000) 0x10005
                           + 0x17)\<rparr>)
   \<and> read_u64 (write_trampoline (mem placed) 0x10020 0x7f0000001000) 0x10026 = 0x7f0000001000
   \<and> relocate_one (host_of libc (call_object ''strlen'' 4)) (call_object ''strlen'' 4)
       (Some 0x200) (Some 0x300) placed_addrs True
       (shdrs (call_object ''strlen'' 4) ! 2) 0x10000 0 (0, placed)
     = Inr (14, placed)"
proof -
  let ?bin = "call_object ''strlen'' 4"
  let ?h = "host_of libc ?bin"
  let ?rel = "reloc_record ?bin (shdrs ?bin ! 2) 0"
  have 2: "ELF_R_TYPE (r_info ?rel) = R_PLT32" by code_simp
  have 3: "reloc_sym_addr ?h ?bin (Some 0x200) (Some 0x300) placed_addrs ?rel placed
             = Inr 0x7f0000001000"
    by code_simp
  have 4: "code placed + code_used placed = 0x10020" by code_simp
  have 5: "0x10000 + r_offset ?rel = 0x10005" by code_simp
  have 6: "reloc_addend (shdrs ?bin ! 2) ?rel = - 4" by code_simp
  have 7: "code_used placed = 0x20" by (simp add: placed_def)
  from plt32_trampoline [where target_base = "0x10000" and code_size = 0,
      OF refl 2 3 refl refl refl] 4 5 6 7
  show ?thesis by simp
qed

section \<open>Sizing mode\<close>

lemma find_append_case:
  "find P (xs @ ys) = (case find P xs of None \<Rightarrow> find P ys | Some x \<Rightarrow> Some x)"
  by (induction xs) auto

lemma sizing_one:
  "relocate_one h bin st str addrs True shdr target_base j (code_size, s) =
     (let ty = ELF_R_TYPE (r_info (reloc_record bin shdr j))
      in if known_reloc ty then Inr (code_size + reloc_code_size ty, s)
         else Inl (Fail (s\<lparr>obj_error := ''Unknown reloc: '' @ decimal (unat ty)\<rparr>)))"
  by (cases "LENGTH('a) = 64")
     (auto simp: relocate_one_def reloc_apply_def known_reloc_def reloc_code_size_def Let_def
        R_32_def R_64_def R_PC32_def R_PLT32_def R_386_32_def R_386_PC32_def R_X86_64_64_def
        R_X86_64_PC32_def R_X86_64_PLT32_def R_X86_64_REX_GOTPCRELX_def)

lemma sizing_inner:
  "for_each (relocate_one h bin st str addrs True shdr target_base) js (code_size, s) =
     (case find (\<lambda>ty. \<not> known_reloc ty)
             (map (\<lambda>j. ELF_R_TYPE (r_info (reloc_record bin shdr j))) js) of
        None \<Rightarrow>
          Inr (code_size
               + sum_list (map reloc_code_size
                             (map (\<lambda>j. ELF_R_TYPE (r_info (reloc_record bin shdr j))) js)), s)
      | Some ty \<Rightarrow> Inl (Fail (s\<lparr>obj_error := ''Unknown reloc: '' @ decimal (unat ty)\<rparr>)))"
proof (induction js arbitrary: code_size)
  case Nil
  then show ?case by simp
next
  case (Cons j js)
  show ?case
  proof (cases "known_reloc (ELF_R_TYPE (r_info (reloc_record bin shdr j)))")
    case True
    then show ?thesis
      using Cons.IH [of "code_size + reloc_code_size (ELF_R_TYPE (r_info (reloc_record bin shdr j)))"]
      by (simp add: sizing_one Let_def add.assoc split: option.splits)
  next
    case False
    then show ?thesis by (simp add: sizing_one Let_def)
  qed
qed

lemma sizing_section:
  assumes "reloc_sections_ok bin addrs" and "i < length (shdrs bin)"
  shows "relocate_section h bin st str addrs True i (code_size, s) =
     (case find (\<lambda>ty. \<not> known_reloc ty) (section_reloc_types bin addrs i) of
        None \<Rightarrow> Inr (code_size + sum_list (map reloc_code_size (section_reloc_types bin addrs i)), s)
      | Some ty \<Rightarrow> Inl (Fail (s\<lparr>obj_error := ''Unknown reloc: '' @ decimal (unat ty)\<rparr>)))"
proof (cases "applies_relocs bin addrs i")
  case True
  then have eq: "section_reloc_types bin addrs i
                   = map (\<lambda>j. ELF_R_TYPE (r_info (reloc_record bin (shdrs bin ! i) j)))
                       [0..<nat (relnum_of (shdrs bin ! i))]"
    by (simp add: section_reloc_types_def)
  show ?thesis
    unfolding eq by (simp add: relocate_section_applies [OF True] sizing_inner)
next
  case False
  with assms have "relocate_section h bin st str addrs True i (code_size, s) = Inr (code_size, s)"
    by (auto simp: applies_relocs_def reloc_sections_ok_def relocate_section_def
        index_addrs_def Let_def)
  moreover from False have "section_reloc_types bin addrs i = []"
    by (simp add: section_reloc_types_def)
  ultimately show ?thesis by simp
qed

lemma sizing_outer:
  assumes "reloc_sections_ok bin addrs" and "\<forall>i \<in> set is. i < length (shdrs bin)"
  shows "for_each (relocate_section h bin st str addrs True) is (code_size, s) =
     (case find (\<lambda>ty. \<not> known_reloc ty) (concat (map (section_reloc_types bin addrs) is)) of
        None \<Rightarrow>
          Inr (code_size
               + sum_list (map reloc_code_size (concat (map (section_reloc_types bin addrs) is))), s)
      | Some ty \<Rightarrow> Inl (Fail (s\<lparr>obj_error := ''Unknown reloc: '' @ decimal (unat ty)\<rparr>)))"
  using assms(2)
proof (induction "is" arbitrary: code_size)
  case Nil
  then show ?case by simp
next
  case (Cons i "is")
  then have i: "i < length (shdrs bin)" by simp
  show ?case
  proof (cases "find (\<lambda>ty. \<not> known_reloc ty) (section_reloc_types bin addrs i)")
    case None
    then show ?thesis
      using Cons.IH [of "code_size + sum_list (map reloc_code_size (section_reloc_types bin addrs i))"]
        Cons.prems
      by (simp add: sizing_section [OF assms(1) i] find_append_case add.assoc split: option.splits)
  next
    case (Some ty)
    then show ?thesis
      by (simp add: sizing_section [OF assms(1) i] find_append_case)
  qed
qed

text \<open>
  C10. With \<open>code_size_only\<close> set, \<open>relocate\<close> depends on neither the symbol table,
  the string table, the resolver nor the section addresses. When every relocation type
  it goes through is known, it returns the sum, over the relocations of sections
  with an allocatable target, of 14 for each \<open>R_X86_64_PLT32\<close> and 8 for each
  \<open>R_X86_64_REX_GOTPCRELX\<close>, and the state is the one it was given: nothing is
  written to memory and the arena is not used. Otherwise it takes the error return at
  the first unknown type, with the message \<open>Unknown reloc:\<close> and the type number, and
  memory and arena are again untouched.
\<close>

theorem relocate_sizing:
  assumes "reloc_sections_ok bin addrs"
  shows "relocate h bin st str addrs True s =
     (case find (\<lambda>ty. \<not> known_reloc ty) (reloc_types bin addrs) of
        None \<Rightarrow> Inr (sum_list (map reloc_code_size (reloc_types bin addrs)), s)
      | Some ty \<Rightarrow> Inl (Fail (s\<lparr>obj_error := ''Unknown reloc: '' @ decimal (unat ty)\<rparr>)))"
  using sizing_outer [OF assms, of "[0..<length (shdrs bin)]" h st str 0 s]
  unfolding relocate_def reloc_types_def by (simp split: option.splits)

theorem relocate_sizing_witness:
  "relocate (host_of libc (call_object ''nothere'' 4)) (call_object ''nothere'' 4)
     (Some 0x200) (Some 0x300) placed_addrs True placed = Inr (14, placed)
   \<and> relocate (host_of libc (call_object ''nothere'' 10)) (call_object ''nothere'' 10)
     None None placed_addrs True placed
       = Inl (Fail (placed\<lparr>obj_error := ''Unknown reloc: 10''\<rparr>))"
proof -
  have a: "reloc_sections_ok (call_object ''nothere'' 4) placed_addrs" by code_simp
  have b: "reloc_types (call_object ''nothere'' 4) placed_addrs = [4]" by code_simp
  have c: "reloc_sections_ok (call_object ''nothere'' 10) placed_addrs" by code_simp
  have d: "reloc_types (call_object ''nothere'' 10) placed_addrs = [10]" by code_simp
  have e: "known_reloc (4 :: 64 word)" "\<not> known_reloc (10 :: 64 word)"
    "reloc_code_size (4 :: 64 word) = 14" "decimal (unat (10 :: 64 word)) = ''10''"
    by code_simp+
  from relocate_sizing [OF a, of "host_of libc (call_object ''nothere'' 4)" "Some 0x200" "Some 0x300" placed]
    relocate_sizing [OF c, of "host_of libc (call_object ''nothere'' 10)" None None placed] b d e
  show ?thesis by simp
qed

section \<open>Where the sections are placed\<close>

text \<open>
  C4 (the code differs). Two objects are opened one after the other. The relocation
  of the first took a 14-byte trampoline from the arena after its sections, and
  \<open>place_section\<close> aligns the arena only after it has taken the bytes of a section:
  the data section of the second object, with \<open>counter\<close> at offset 0, starts at
  \<open>0x1002e\<close>, which is not a multiple of 16. Opened alone, the same object has
  it at \<open>0x10000\<close>.
\<close>

theorem placement_misaligned:
  "lookup_after (objopen two_files ''b.o'' 0 start) ''counter'' = Some 0x10000
   \<and> lookup_after (open_two two_files ''a.o'' ''b.o'' start) ''counter'' = Some 0x1002e
   \<and> (0x1002e :: 64 word) AND 15 = 14"
  by code_simp

section \<open>Symbol addresses and the arena\<close>

lemma for_each_invariant:
  assumes "\<And>x s s'. x \<in> set xs \<Longrightarrow> P s \<Longrightarrow> body x s = Inr s' \<Longrightarrow> P s'"
    and "P s" and "for_each body xs s = Inr s'"
  shows "P s'"
  using assms
proof (induction xs arbitrary: s)
  case Nil
  then show ?case by simp
next
  case (Cons x xs)
  from Cons.prems(3) obtain s1 where 1: "body x s = Inr s1" and 2: "for_each body xs s1 = Inr s'"
    by (auto split: sum.splits)
  have "P s1" by (rule Cons.prems(1) [OF _ Cons.prems(2) 1]) simp
  show ?case
  proof (rule Cons.IH [OF _ \<open>P s1\<close> 2])
    fix y t t' assume "y \<in> set xs" "P t" "body y t = Inr t'"
    then show "P t'" using Cons.prems(1) [of y t t'] by simp
  qed
qed

lemma reloc_apply_code:
  "reloc_apply cso ty target a addend (code_size, s) = Inr (code_size', s') \<Longrightarrow> code s' = code s"
  by (auto simp: reloc_apply_def alloc_code_def Let_def split: if_splits)

lemma relocate_one_code:
  "relocate_one h bin st str addrs cso shdr tb j (code_size, s) = Inr (code_size', s')
     \<Longrightarrow> code s' = code s"
  by (auto simp: relocate_one_def Let_def split: sum.splits if_splits dest: reloc_apply_code)

lemma relocate_section_code:
  assumes "relocate_section h bin st str addrs cso i (code_size, s) = Inr (code_size', s')"
  shows "code s' = code s"
proof -
  have "code (snd (code_size', s')) = code s"
    if "for_each (relocate_one h bin st str addrs cso shdr tb) js (code_size, s)
          = Inr (code_size', s')" for shdr tb js
    by (rule for_each_invariant [where P = "\<lambda>x. code (snd x) = code s", OF _ _ that])
       (auto dest: relocate_one_code)
  with assms show ?thesis
    by (auto simp: relocate_section_def Let_def split: sum.splits if_splits)
qed

lemma relocate_code:
  assumes "relocate h bin st str addrs cso s = Inr (code_size', s')"
  shows "code s' = code s"
proof -
  have "code (snd (code_size', s')) = code s"
    by (rule for_each_invariant [where P = "\<lambda>x. code (snd x) = code s",
          OF _ _ assms [unfolded relocate_def]])
       (auto dest: relocate_section_code)
  then show ?thesis by simp
qed

lemma place_section_frame:
  assumes "place_section bin i (addrs, s) = (addrs', s')"
  shows "code s' = code s" and "length addrs' = length addrs"
    and "k \<noteq> i \<Longrightarrow> addrs' ! k = addrs ! k"
  using assms
  by (auto simp: place_section_def alloc_code_def align_code_def Let_def split: if_splits)

lemma place_section_here:
  assumes "place_section bin i (addrs, s) = (addrs', s')"
    and "sh_flags (shdrs bin ! i) AND SHF_ALLOC \<noteq> 0" and "i < length addrs"
  shows "addrs' ! i = code s + code_used s"
    and "code_used s' = align_up (code_used s + sh_size (shdrs bin ! i)) 16"
  using assms
  by (auto simp: place_section_def alloc_code_def align_code_def Let_def split: if_splits)

lemma place_section_skip:
  assumes "place_section bin i (addrs, s) = (addrs', s')"
    and "\<not> sh_flags (shdrs bin ! i) AND SHF_ALLOC \<noteq> 0"
  shows "code_used s' = code_used s"
  using assms by (auto simp: place_section_def)

lemma fold_place_frame:
  assumes "fold (place_section bin) is (addrs, s) = (addrs', s')"
  shows "code s' = code s \<and> length addrs' = length addrs
         \<and> (k \<notin> set is \<longrightarrow> addrs' ! k = addrs ! k)"
  using assms
proof (induction "is" arbitrary: addrs s)
  case Nil
  then show ?case by simp
next
  case (Cons i "is")
  obtain a1 s1 where 1: "place_section bin i (addrs, s) = (a1, s1)"
    by (cases "place_section bin i (addrs, s)")
  with Cons.prems have 2: "fold (place_section bin) is (a1, s1) = (addrs', s')" by simp
  from Cons.IH [OF 2] place_section_frame [OF 1] show ?case by auto
qed

lemma fold_place_addr:
  fixes bin :: "'a::len elf_file"
  assumes "fold (place_section bin) is (addrs, s) = (addrs', s')"
    and "distinct is" and "\<forall>i \<in> set is. i < length addrs"
    and "sections_fit bin is (code_used s)"
    and "i \<in> set is" and "sh_flags (shdrs bin ! i) AND SHF_ALLOC \<noteq> 0"
  shows "\<exists>u. addrs' ! i = code s + u
             \<and> unat u + unat (sh_size (shdrs bin ! i)) \<le> unat (arena_size :: 'a::len word)"
  using assms
proof (induction "is" arbitrary: addrs s)
  case Nil
  then show ?case by simp
next
  case (Cons k "is")
  obtain a1 s1 where 1: "place_section bin k (addrs, s) = (a1, s1)"
    by (cases "place_section bin k (addrs, s)")
  with Cons.prems(1) have 2: "fold (place_section bin) is (a1, s1) = (addrs', s')" by simp
  note fr = place_section_frame [OF 1]
  show ?case
  proof (cases "i = k")
    case True
    from Cons.prems(2) True have "i \<notin> set is" by simp
    with fold_place_frame [OF 2, of i] have "addrs' ! i = a1 ! i" by simp
    moreover from Cons.prems(3) True have "i < length addrs" by simp
    with place_section_here(1) [OF 1] Cons.prems(6) True
    have "a1 ! i = code s + code_used s" by simp
    moreover from Cons.prems(4,6) True
    have "unat (code_used s) + unat (sh_size (shdrs bin ! i)) \<le> unat (arena_size :: 'a word)"
      by simp
    ultimately show ?thesis by auto
  next
    case False
    with Cons.prems(5) have i: "i \<in> set is" by simp
    have fit: "sections_fit bin is (code_used s1)"
    proof (cases "sh_flags (shdrs bin ! k) AND SHF_ALLOC \<noteq> 0")
      case True
      from Cons.prems(3) have "k < length addrs" by simp
      from place_section_here(2) [OF 1 True this] Cons.prems(4) True show ?thesis by simp
    next
      case False
      from place_section_skip [OF 1 False] Cons.prems(4) False show ?thesis by simp
    qed
    from Cons.prems(2) have d: "distinct is" by simp
    from Cons.prems(3) fr(2) have l: "\<forall>i \<in> set is. i < length a1" by simp
    from Cons.IH [OF 2 d l fit i Cons.prems(6)] fr(1) show ?thesis by simp
  qed
qed

lemma in_arena:
  fixes base u v sz :: "'a::len word"
  assumes "unat u + unat sz \<le> unat (arena_size :: 'a word)" and "v < sz"
    and "unat base + unat (arena_size :: 'a word) \<le> 2 ^ LENGTH('a)"
  shows "unat base \<le> unat (base + u + v)
         \<and> unat (base + u + v) < unat base + unat (arena_size :: 'a word)"
proof -
  from assms(2) have v: "unat v < unat sz" by (simp add: word_less_nat_alt)
  with assms have "unat u + unat v < 2 ^ LENGTH('a)" by linarith
  then have uv: "unat (u + v) = unat u + unat v" by (simp add: unat_add_lem)
  with v assms have "unat base + unat (u + v) < 2 ^ LENGTH('a)" by linarith
  then have "unat (base + (u + v)) = unat base + unat (u + v)" by (simp add: unat_add_lem)
  with uv v assms(1) show ?thesis by (simp add: add.assoc)
qed

lemma fold_invariant:
  assumes "\<And>x t. P t \<Longrightarrow> P (f x t)" and "P t"
  shows "P (fold f xs t)"
  using assms(2) by (induction xs arbitrary: t) (auto intro: assms(1))

lemma find_tables_symnum: "symnum (find_tables bin) < 2 ^ 31"
  unfolding find_tables_def
proof (rule fold_invariant [where P = "\<lambda>t. symnum t < 2 ^ 31"])
  fix i and t :: "'a tables"
  assume "symnum t < 2 ^ 31"
  moreover have "sint (w :: 32 word) < 2 ^ 31" for w
    using sint_lt [of w] by simp
  ultimately show "symnum (find_tables_step bin i t) < 2 ^ 31"
    by (simp add: find_tables_step_def Let_def)
qed simp

lemma sym_offset_inj:
  fixes st :: "64 word"
  assumes "k < 2 ^ 31" and "k' < 2 ^ 31"
    and "st + sizeof_Elf_Sym * of_nat k = st + sizeof_Elf_Sym * of_nat k'"
  shows "k = k'"
proof -
  have u: "unat (of_nat (24 * n) :: 64 word) = 24 * n" if "n < 2 ^ 31" for n :: nat
  proof (rule of_nat_inverse [OF refl])
    from that show "24 * n < 2 ^ LENGTH(64)" by simp
  qed
  from assms(3) have "(24 * of_nat k :: 64 word) = 24 * of_nat k'"
    by (simp add: sizeof_Elf_Sym_def)
  then have "(of_nat (24 * k) :: 64 word) = of_nat (24 * k')"
    by simp
  then have "unat (of_nat (24 * k) :: 64 word) = unat (of_nat (24 * k') :: 64 word)"
    by (rule arg_cong)
  then have "24 * k = 24 * k'"
    by (simp only: u [OF assms(1)] u [OF assms(2)])
  then show ?thesis by simp
qed

lemma emit_symbols_addrs:
  fixes bin :: "64 elf_file"
  assumes "for_each (emit_symbol st str_opt addrs) ks (b, acc) = Inr (b', syms)"
    and "distinct ks" and "\<forall>k \<in> set ks. k < 2 ^ 31"
    and "\<forall>k \<in> set ks. sym_at b (st + sizeof_Elf_Sym * of_nat k)
                        = sym_at bin (st + sizeof_Elf_Sym * of_nat k)"
    and "\<forall>k \<in> set ks.
           ELF_ST_TYPE (st_info (sym_at bin (st + sizeof_Elf_Sym * of_nat k))) = STT_OBJECT
           \<or> ELF_ST_TYPE (st_info (sym_at bin (st + sizeof_Elf_Sym * of_nat k))) = STT_FUNC
           \<longrightarrow> A (addrs ! unat (st_shndx (sym_at bin (st + sizeof_Elf_Sym * of_nat k)))
                  + st_value (sym_at bin (st + sizeof_Elf_Sym * of_nat k)))"
    and "\<forall>r \<in> set acc. A (addr r)"
  shows "\<forall>r \<in> set syms. A (addr r)"
  using assms
proof (induction ks arbitrary: b acc)
  case Nil
  then show ?case by simp
next
  case (Cons k ks)
  let ?off = "st + sizeof_Elf_Sym * of_nat k"
  from Cons.prems(1) obtain b1 acc1 where
    1: "emit_symbol st str_opt addrs k (b, acc) = Inr (b1, acc1)"
    and 2: "for_each (emit_symbol st str_opt addrs) ks (b1, acc1) = Inr (b', syms)"
    by (auto split: sum.splits)
  from Cons.prems(4) have here: "sym_at b ?off = sym_at bin ?off" by simp
  have other: "sym_at b1 (st + sizeof_Elf_Sym * of_nat j) = sym_at bin (st + sizeof_Elf_Sym * of_nat j)"
    if "j \<in> set ks" for j
  proof -
    from that Cons.prems(2) have "j \<noteq> k" by auto
    moreover from that Cons.prems(3) have "j < 2 ^ 31" "k < 2 ^ 31" by simp_all
    ultimately have "st + sizeof_Elf_Sym * of_nat j \<noteq> ?off"
      using sym_offset_inj [of j k st] by blast
    moreover from that Cons.prems(4)
    have "sym_at b (st + sizeof_Elf_Sym * of_nat j) = sym_at bin (st + sizeof_Elf_Sym * of_nat j)"
      by simp
    ultimately show ?thesis using 1
      by (auto simp: emit_symbol_def Let_def index_addrs_def
          split: if_splits option.splits sum.splits)
  qed
  have acc1: "\<forall>r \<in> set acc1. A (addr r)"
    using 1 here Cons.prems(5,6)
    by (auto simp: emit_symbol_def Let_def index_addrs_def
        split: if_splits option.splits sum.splits)
  show ?case
  proof (rule Cons.IH [OF 2 _ _ _ _ acc1])
    show "distinct ks" using Cons.prems(2) by simp
    show "\<forall>k \<in> set ks. k < 2 ^ 31" using Cons.prems(3) by simp
    show "\<forall>k \<in> set ks. sym_at b1 (st + sizeof_Elf_Sym * of_nat k)
                        = sym_at bin (st + sizeof_Elf_Sym * of_nat k)"
      using other by blast
    show "\<forall>k \<in> set ks.
           ELF_ST_TYPE (st_info (sym_at bin (st + sizeof_Elf_Sym * of_nat k))) = STT_OBJECT
           \<or> ELF_ST_TYPE (st_info (sym_at bin (st + sizeof_Elf_Sym * of_nat k))) = STT_FUNC
           \<longrightarrow> A (addrs ! unat (st_shndx (sym_at bin (st + sizeof_Elf_Sym * of_nat k)))
                  + st_value (sym_at bin (st + sizeof_Elf_Sym * of_nat k)))"
      using Cons.prems(5) by simp
  qed
qed

lemma objopen_Some_before:
  assumes "objopen h filename flags s = Inr (Some obj, s')"
  shows "before_relocate h filename s \<noteq> None"
proof
  assume "before_relocate h filename s = None"
  then show False using assms
    by (auto simp: before_relocate_def objopen_def read_file_def load_object_def Let_def
        split: if_splits file_result.splits prod.splits sum.splits error.splits)
qed

lemma objopen_SomeD:
  assumes "objopen h filename flags s = Inr (Some obj, s')"
    and "before_relocate h filename s = Some (bin1, t, addrs, syms, sp)"
  shows "obj = new_obj\<lparr>symbols := syms\<rparr>"
    and "\<exists>code_size. relocate h bin1 (symtab t) (strtab t) addrs False sp = Inr (code_size, s')"
  using assms(1) unfolding objopen_relocate [OF assms(2)]
  by (simp_all split: sum.splits error.splits prod.splits)

lemma before_relocateD:
  assumes "before_relocate h filename s = Some (bin1, t, addrs, syms, sp)"
    and "file_system h filename = Contents bin"
  shows "t = find_tables bin"
    and "place_sections bin (if code s = 0 then init h s else s) = (addrs, sp)"
    and "emit_symbols (find_tables bin) addrs bin = Inr (bin1, syms)"
  using assms
  by (auto simp: before_relocate_def Let_def
      split: if_splits file_result.splits prod.splits sum.splits)

lemma objsym_loop_member:
  "objsym_loop ss n \<noteq> 0 \<Longrightarrow> \<exists>r \<in> set ss. addr r = objsym_loop ss n"
  by (induction ss) auto

text \<open>
  C3 (as stated, fails). The object is accepted and \<open>objsym\<close> gives the address 16
  for its symbol \<open>tag\<close>, which is defined in a section that is not allocatable and so
  has the null base; the arena starts at \<open>0x10000\<close>.
\<close>

theorem symbol_outside_arena:
  "outcome (objopen (host_of libc stray_object) ''a.o'' 0 start)
     = Some (Some \<lparr>symbols = [\<lparr>name = ''tag'', addr = 0x10\<rparr>],
                   obj_code = 0, obj_code_size = 0, obj_code_used = 0\<rparr>, [])
   \<and> lookup_after (objopen (host_of libc stray_object) ''a.o'' 0 start) ''tag'' = Some 0x10
   \<and> mmap_result (host_of libc stray_object) = 0x10000
   \<and> \<not> (0x10000 :: 64 word) \<le> 0x10"
  by code_simp

text \<open>
  C3 (amended). On x86-64, \<open>objopen\<close> returns a handle for an object in which every
  function and object symbol is defined in an allocatable section, at an offset below
  the size of the section, and whose allocatable sections each end inside the arena
  when placed from the current \<open>code_used\<close>; the arena does not wrap around the
  address space. Then every non-null address that \<open>objsym\<close> returns on the handle
  lies in the arena: \<open>code \<le> s < code + arena_size\<close>.
\<close>

theorem symbols_in_arena:
  fixes s :: "64 state"
  assumes "objopen h filename flags s = Inr (Some obj, s')"
    and "file_system h filename = Contents bin"
    and "unat (code s') + unat (arena_size :: 64 word) \<le> 2 ^ 64"
    and "sections_fit bin [0..<length (shdrs bin)] (code_used s)"
    and "symbols_defined bin"
    and "objsym obj n \<noteq> 0"
  shows "unat (code s') \<le> unat (objsym obj n)
         \<and> unat (objsym obj n) < unat (code s') + unat (arena_size :: 64 word)"
proof -
  let ?s1 = "if code s = 0 then init h s else s"
  let ?n = "length (shdrs bin)"
  from objopen_Some_before [OF assms(1)] obtain w where
    "before_relocate h filename s = Some w" by auto
  then obtain bin1 t addrs syms sp where
    br: "before_relocate h filename s = Some (bin1, t, addrs, syms, sp)"
    by (cases w rule: prod_cases5) simp
  note d = before_relocateD [OF br assms(2)]
  from objopen_SomeD [OF assms(1) br] obtain code_size where
    obj: "symbols obj = syms"
    and rel: "relocate h bin1 (symtab t) (strtab t) addrs False sp = Inr (code_size, s')"
    by (auto simp: new_obj_def)
  from d(2) have fold:
    "fold (place_section bin) [0..<?n] (replicate ?n 0, ?s1) = (addrs, sp)"
    by (simp add: place_sections_def)
  from fold_place_frame [OF fold] have len: "length addrs = ?n" and "code sp = code ?s1"
    by simp_all
  with relocate_code [OF rel] have base: "code ?s1 = code s'" by simp
  have cu: "code_used ?s1 = code_used s" by (simp add: init_def Let_def)
  define A where "A a \<longleftrightarrow> unat (code s') \<le> unat a
                      \<and> unat a < unat (code s') + unat (arena_size :: 64 word)" for a :: "64 word"
  have placed_ok: "A (addrs ! unat (st_shndx esym) + st_value esym)"
    if "symbol_defined bin esym" for esym
  proof -
    from that have i: "unat (st_shndx esym) < ?n"
      and al: "sh_flags (shdrs bin ! unat (st_shndx esym)) AND SHF_ALLOC \<noteq> 0"
      and v: "st_value esym < sh_size (shdrs bin ! unat (st_shndx esym))"
      by (simp_all add: symbol_defined_def)
    have "\<exists>u. addrs ! unat (st_shndx esym) = code ?s1 + u
               \<and> unat u + unat (sh_size (shdrs bin ! unat (st_shndx esym)))
                   \<le> unat (arena_size :: 64 word)"
    proof (rule fold_place_addr [OF fold _ _ _ _ al])
      show "distinct [0..<?n]" by simp
      show "\<forall>i \<in> set [0..<?n]. i < length (replicate ?n (0 :: 64 word))" by simp
      show "sections_fit bin [0..<?n] (code_used ?s1)" using assms(4) cu by simp
      show "unat (st_shndx esym) \<in> set [0..<?n]" using i by simp
    qed
    then obtain u where u: "addrs ! unat (st_shndx esym) = code s' + u"
      and b: "unat u + unat (sh_size (shdrs bin ! unat (st_shndx esym)))
                \<le> unat (arena_size :: 64 word)"
      using base by auto
    from in_arena [OF b v] assms(3) show ?thesis
      by (simp add: A_def u)
  qed
  have all: "\<forall>r \<in> set syms. A (addr r)"
  proof (cases "symtab (find_tables bin)")
    case None
    with d(3) have "syms = []"
      by (auto simp: emit_symbols_def split: if_splits)
    then show ?thesis by simp
  next
    case (Some st)
    let ?m = "nat (symnum (find_tables bin))"
    from d(3) Some have fe:
      "for_each (emit_symbol st (strtab (find_tables bin)) addrs) [0..<?m] (bin, [])
         = Inr (bin1, syms)"
      by (simp add: emit_symbols_def)
    show ?thesis
    proof (rule emit_symbols_addrs [where bin = bin, OF fe])
      show "distinct [0..<?m]" by simp
      show "\<forall>k \<in> set [0..<?m]. k < 2 ^ 31"
        using find_tables_symnum [of bin] by auto
      show "\<forall>k \<in> set [0..<?m]. sym_at bin (st + sizeof_Elf_Sym * of_nat k)
                                = sym_at bin (st + sizeof_Elf_Sym * of_nat k)"
        by simp
      show "\<forall>k \<in> set [0..<?m].
              ELF_ST_TYPE (st_info (sym_at bin (st + sizeof_Elf_Sym * of_nat k))) = STT_OBJECT
              \<or> ELF_ST_TYPE (st_info (sym_at bin (st + sizeof_Elf_Sym * of_nat k))) = STT_FUNC
              \<longrightarrow> A (addrs ! unat (st_shndx (sym_at bin (st + sizeof_Elf_Sym * of_nat k)))
                     + st_value (sym_at bin (st + sizeof_Elf_Sym * of_nat k)))"
        using assms(5) Some placed_ok
        by (auto simp: symbols_defined_def list_all_iff Let_def)
      show "\<forall>r \<in> set []. A (addr r)" by simp
    qed
  qed
  from objsym_loop_member [of "symbols obj" n] assms(6) obtain r where
    "r \<in> set (symbols obj)" and "addr r = objsym obj n"
    by (auto simp: objsym_def)
  with all obj show ?thesis by (auto simp: A_def)
qed

theorem symbols_in_arena_witness:
  "objsym \<lparr>symbols = [\<lparr>name = ''hello'', addr = 0x10000 :: 64 word\<rparr>],
           obj_code = 0, obj_code_size = 0, obj_code_used = 0\<rparr> ''hello'' = 0x10000
   \<and> unat (0x10000 :: 64 word) \<le> unat (0x10000 :: 64 word)
   \<and> unat (0x10000 :: 64 word) < unat (0x10000 :: 64 word) + unat (arena_size :: 64 word)"
proof -
  let ?bin = "call_object ''strlen'' 4"
  let ?h = "host_of libc ?bin"
  let ?r = "objopen ?h ''a.o'' 0 start"
  let ?obj = "\<lparr>symbols = [\<lparr>name = ''hello'', addr = 0x10000 :: 64 word\<rparr>],
               obj_code = 0, obj_code_size = 0, obj_code_used = 0\<rparr>"
  have a: "handle_of ?r = Some ?obj" by code_simp
  from handle_ofD [OF a] obtain s' where r: "?r = Inr (Some ?obj, s')" by (rule exE)
  have "code (snd (projr ?r)) = 0x10000" by code_simp
  with r have c: "code s' = 0x10000" by simp
  have 2: "file_system ?h ''a.o'' = Contents ?bin" by (simp add: host_of_def)
  have 3: "unat (code s') + unat (arena_size :: 64 word) \<le> 2 ^ 64"
    using c by (simp add: arena_size_def)
  have 4: "sections_fit ?bin [0..<length (shdrs ?bin)] (code_used start)"
    by (simp add: call_object_def section_header_def start_def upt_rec SHF_ALLOC_def
        arena_size_def align_up_def align_down_def)
  have ft: "find_tables ?bin
              = \<lparr>symtab = Some 0x200, symnum = 3, strtab_index = 4, strtab = Some 0x300\<rparr>"
    by code_simp
  have 5: "symbols_defined ?bin"
    unfolding symbols_defined_def ft
    by (simp add: upt_rec Let_def call_object_def section_header_def symbol_defined_def
        sizeof_Elf_Sym_def ELF_ST_TYPE_def STT_OBJECT_def STT_FUNC_def SHF_ALLOC_def
        null_sym_def)
  have 6: "objsym ?obj ''hello'' \<noteq> 0" by code_simp
  have 7: "objsym ?obj ''hello'' = 0x10000" by code_simp
  from symbols_in_arena [OF r 2 3 4 5 6] c 7 show ?thesis by simp
qed

end
